theory Spec2Isabelle
  imports Complex_Main
begin

section \<open>Data model\<close>

text \<open>
  Python exceptions that the modelled code can raise. Floating-point numbers are
  modelled as reals; documents are modelled after parsing.
\<close>

datatype py_error = KeyError | IndexError | ValueError | AttributeError
  | AssertionError | ZeroDivisionError

type_synonym point = "real \<times> real"

text \<open>
  An svgelements subpath, seen through the two methods the code calls on it:
  \<open>length()\<close> and \<open>point(t)\<close>.
\<close>

record subpath =
  sp_length :: real
  sp_point :: "real \<Rightarrow> point"

text \<open>
  An svgelements path: \<open>len(path)\<close> is its number of segments, \<open>subpath(0)\<close> its first
  subpath (\<open>as_subpaths\<close> always yields at least one) and
  \<open>list(as_subpaths())[1:]\<close> the remaining ones.
\<close>

record path =
  path_len :: nat
  first_subpath :: subpath
  rest_subpaths :: "subpath list"

text \<open>
  The runtime class of a document element: \<open>svgelements.Path\<close>, another
  \<open>svgelements.Shape\<close>, or anything else (groups, text, the root).
\<close>

datatype element_kind = PathElement | ShapeElement | OtherElement

text \<open>
  A document element: its class, its \<open>values\<close> dictionary, and its path (for a shape,
  the result of \<open>Path(element)\<close> followed by \<open>reify()\<close>).
\<close>

record svg_element =
  kind :: element_kind
  el_values :: "string \<rightharpoonup> string"
  el_path :: path

text \<open>
  A parsed document: the numbers of its \<open>viewBox\<close> attribute after \<open>split()\<close>, and
  the elements that \<open>svg_object.elements()\<close> yields, in order.
\<close>

record svg_document =
  viewBox :: "real list"
  doc_elements :: "svg_element list"

text \<open>
  A Shapely geometry as far as the code reads it: a polygon through the coordinates of
  its exterior ring (the last one repeats the first; none for the empty polygon), a
  multi-polygon through the exterior rings of its members.
\<close>

datatype shapely_geom = SPolygon "point list" | SMultiPolygon "point list list"

text \<open>
  The two Shapely operations whose results the code does not inspect further:
  \<open>buffer(distance, cap_style, join_style, mitre_limit)\<close> and \<open>simplify(tolerance)\<close>.
\<close>

record shapely_lib =
  buffer :: "shapely_geom \<Rightarrow> real \<Rightarrow> nat \<Rightarrow> nat \<Rightarrow> real \<Rightarrow> shapely_geom"
  simplify :: "shapely_geom \<Rightarrow> real \<Rightarrow> shapely_geom"

text \<open>The polygon types of the native library, as the code builds and reads them.\<close>

record PolygonWithHoles =
  boundary :: "point list"
  holes :: "point list list"

section \<open>SVG parsing and polygon preprocessing\<close>

definition distance_to :: "point \<Rightarrow> point \<Rightarrow> real" where
  "distance_to p q = sqrt ((fst p - fst q)\<^sup>2 + (snd p - snd q)\<^sup>2)"

definition to_shapely_polygon :: "point list \<Rightarrow> shapely_geom" where
  "to_shapely_polygon points =
     SPolygon (if points \<noteq> [] \<and> hd points \<noteq> last points then points @ [hd points] else points)"

definition discretize_path :: "subpath \<Rightarrow> real \<Rightarrow> py_error + shapely_geom" where
  "discretize_path p spacing =
     (if spacing = 0 then Inl ZeroDivisionError
      else let n_points = max 3 \<lceil>sp_length p / spacing\<rceil> in
        Inr (to_shapely_polygon
              (map (\<lambda>i. sp_point p (real i * (1 / real_of_int n_points))) [0..<nat n_points])))"

definition get_boundary :: "path \<Rightarrow> subpath" where
  "get_boundary p = first_subpath p"

definition is_closed_subpath :: "subpath \<Rightarrow> real \<Rightarrow> bool" where
  "is_closed_subpath p tolerance = (distance_to (sp_point p 0) (sp_point p 1) < tolerance)"

definition is_closed :: "path \<Rightarrow> real \<Rightarrow> bool" where
  "is_closed p tolerance = is_closed_subpath (get_boundary p) tolerance"

definition dilate :: "shapely_lib \<Rightarrow> shapely_geom \<Rightarrow> real \<Rightarrow> shapely_geom" where
  "dilate L poly offset = buffer L poly offset 2 2 5"

definition erode :: "shapely_lib \<Rightarrow> shapely_geom \<Rightarrow> real \<Rightarrow> shapely_geom" where
  "erode L poly offset = buffer L poly (- offset) 2 2 5"

definition get_sheet_dimensions :: "svg_document \<Rightarrow> py_error + (real \<times> real)" where
  "get_sheet_dimensions doc =
     (case viewBox doc of [_, _, w, h] \<Rightarrow> Inr (h, w) | _ \<Rightarrow> Inl ValueError)"

text \<open>
  The test \<open>'hidden' in element.values and element.values['visibility'] == 'hidden'\<close>:
  the subscript raises when the key is missing.
\<close>

definition is_hidden :: "svg_element \<Rightarrow> py_error + bool" where
  "is_hidden e =
     (if ''hidden'' \<in> dom (el_values e)
      then (case el_values e ''visibility'' of
              None \<Rightarrow> Inl KeyError
            | Some v \<Rightarrow> Inr (v = ''hidden''))
      else Inr False)"

text \<open>The two branches that append an element: a path as it is, a shape converted.\<close>

definition is_retained :: "svg_element \<Rightarrow> real \<Rightarrow> bool" where
  "is_retained e tolerance =
     (case kind e of
        PathElement \<Rightarrow> path_len (el_path e) \<noteq> 0 \<and> is_closed (el_path e) tolerance
      | ShapeElement \<Rightarrow> path_len (el_path e) \<noteq> 0 \<and> is_closed (el_path e) tolerance
      | OtherElement \<Rightarrow> False)"

text \<open>The first loop of \<open>extract_shapely_polygons\<close>: the retained elements and their paths.\<close>

fun gather_paths :: "real \<Rightarrow> svg_element list \<Rightarrow> py_error + (svg_element list \<times> path list)" where
  "gather_paths tolerance [] = Inr ([], [])"
| "gather_paths tolerance (e # es) =
     (case is_hidden e of
        Inl err \<Rightarrow> Inl err
      | Inr True \<Rightarrow> gather_paths tolerance es
      | Inr False \<Rightarrow>
          (if is_retained e tolerance
           then (case gather_paths tolerance es of
                   Inl err \<Rightarrow> Inl err
                 | Inr (elements, paths) \<Rightarrow> Inr (e # elements, el_path e # paths))
           else gather_paths tolerance es))"

text \<open>The list comprehension over the hole subpaths.\<close>

fun hole_polygons :: "shapely_lib \<Rightarrow> real \<Rightarrow> subpath list \<Rightarrow> py_error + shapely_geom list" where
  "hole_polygons L tolerance [] = Inr []"
| "hole_polygons L tolerance (p # ps) =
     (if is_closed_subpath p tolerance
      then (case discretize_path p tolerance of
              Inl err \<Rightarrow> Inl err
            | Inr d \<Rightarrow>
                (case hole_polygons L tolerance ps of
                   Inl err \<Rightarrow> Inl err
                 | Inr hs \<Rightarrow> Inr (simplify L (erode L d (1.5 * tolerance)) tolerance # hs)))
      else hole_polygons L tolerance ps)"

definition path_polygon :: "shapely_lib \<Rightarrow> real \<Rightarrow> path \<Rightarrow> py_error + (shapely_geom \<times> shapely_geom list)" where
  "path_polygon L tolerance p =
     (case discretize_path (first_subpath p) tolerance of
        Inl err \<Rightarrow> Inl err
      | Inr d \<Rightarrow>
          (let boundary_s = simplify L (dilate L d (1.5 * tolerance)) tolerance in
           case hole_polygons L tolerance (rest_subpaths p) of
             Inl err \<Rightarrow> Inl err
           | Inr hs \<Rightarrow> Inr (boundary_s, hs)))"

text \<open>The second loop of \<open>extract_shapely_polygons\<close>.\<close>

fun path_polygons :: "shapely_lib \<Rightarrow> real \<Rightarrow> path list \<Rightarrow> py_error + (shapely_geom \<times> shapely_geom list) list" where
  "path_polygons L tolerance [] = Inr []"
| "path_polygons L tolerance (p # ps) =
     (case path_polygon L tolerance p of
        Inl err \<Rightarrow> Inl err
      | Inr bh \<Rightarrow>
          (case path_polygons L tolerance ps of
             Inl err \<Rightarrow> Inl err
           | Inr rest \<Rightarrow> Inr (bh # rest)))"

definition extract_shapely_polygons ::
  "shapely_lib \<Rightarrow> svg_document \<Rightarrow> real \<Rightarrow>
     py_error + (svg_element list \<times> (shapely_geom \<times> shapely_geom list) list)" where
  "extract_shapely_polygons L svg_document tolerance =
     (case get_sheet_dimensions svg_document of
        Inl err \<Rightarrow> Inl err
      | Inr _ \<Rightarrow>
          (case gather_paths tolerance (doc_elements svg_document) of
             Inl err \<Rightarrow> Inl err
           | Inr (elements, paths) \<Rightarrow>
               (case path_polygons L tolerance paths of
                  Inl err \<Rightarrow> Inl err
                | Inr shapely_polygons \<Rightarrow>
                    (if length elements = length shapely_polygons
                     then Inr (elements, shapely_polygons)
                     else Inl AssertionError))))"

text \<open>\<open>geometry.exterior.coords.xy\<close>: a multi-polygon has no attribute \<open>exterior\<close>.\<close>

definition exterior_coords :: "shapely_geom \<Rightarrow> py_error + point list" where
  "exterior_coords g = (case g of SPolygon cs \<Rightarrow> Inr cs | SMultiPolygon _ \<Rightarrow> Inl AttributeError)"

text \<open>The loop \<open>for i in range(len(x) - 1)\<close> that drops the repeated last coordinate.\<close>

definition ring_points :: "point list \<Rightarrow> point list" where
  "ring_points cs = take (length cs - 1) cs"

definition is_empty :: "shapely_geom \<Rightarrow> bool" where
  "is_empty g = (case g of SPolygon cs \<Rightarrow> cs = [] | SMultiPolygon ms \<Rightarrow> list_all (\<lambda>m. m = []) ms)"

text \<open>The inner loop of \<open>extract_polygons\<close> over the holes of one polygon.\<close>

fun add_holes :: "shapely_geom list \<Rightarrow> point list list" where
  "add_holes [] = []"
| "add_holes (hole # hs) =
     (if \<not> is_empty hole
      then (case hole of
              SMultiPolygon ms \<Rightarrow> map ring_points ms @ add_holes hs
            | SPolygon cs \<Rightarrow> ring_points cs # add_holes hs)
      else add_holes hs)"

fun convert_polygons ::
  "shapely_lib \<Rightarrow> real \<Rightarrow> (shapely_geom \<times> shapely_geom list) list \<Rightarrow> py_error + PolygonWithHoles list" where
  "convert_polygons L offset [] = Inr []"
| "convert_polygons L offset ((polygon, hs) # rest) =
     (case exterior_coords (dilate L polygon offset) of
        Inl err \<Rightarrow> Inl err
      | Inr cs \<Rightarrow>
          (case convert_polygons L offset rest of
             Inl err \<Rightarrow> Inl err
           | Inr polygons \<Rightarrow>
               Inr (\<lparr>boundary = ring_points cs, holes = add_holes hs\<rparr> # polygons)))"

definition extract_polygons ::
  "shapely_lib \<Rightarrow> svg_document \<Rightarrow> real \<Rightarrow> real \<Rightarrow>
     py_error + (svg_element list \<times> PolygonWithHoles list)" where
  "extract_polygons L svg_file tolerance offset =
     (case extract_shapely_polygons L svg_file tolerance of
        Inl err \<Rightarrow> Inl err
      | Inr (elements, shapely_polygons) \<Rightarrow>
          (if length elements = length shapely_polygons
           then (case convert_polygons L offset shapely_polygons of
                   Inl err \<Rightarrow> Inl err
                 | Inr polygons \<Rightarrow> Inr (elements, polygons))
           else Inl AssertionError))"

section \<open>The native library\<close>

record Transform =
  translate :: point
  rotate_angle :: real

record Placement =
  polygon_id :: int
  transform :: Transform

record Sheet =
  height :: real
  width :: real
  sheet_holes :: "PolygonWithHoles list"

text \<open>
  The compiled module \<open>_packaide\<close> is taken as a parameter: the constructor \<open>State()\<close>
  and the functions \<open>sheet_add_holes\<close> and \<open>pack_decreasing\<close>, which update the sheet
  and the state they are given.
\<close>

record 'st native_lib =
  State_new :: 'st
  sheet_add_holes :: "Sheet \<Rightarrow> point list list \<Rightarrow> 'st \<Rightarrow> Sheet \<times> 'st"
  pack_decreasing ::
    "Sheet list \<Rightarrow> PolygonWithHoles list \<Rightarrow> 'st \<Rightarrow> bool \<Rightarrow> int \<Rightarrow> Placement list list \<times> 'st"

text \<open>
  State objects live in a store: \<open>objs\<close> gives the contents at each reference, the
  references below \<open>next_ref\<close> are the allocated ones. The module-level
  \<open>persistent_state\<close> is the object created first.
\<close>

record 'st heap =
  objs :: "nat \<Rightarrow> 'st"
  next_ref :: nat

definition persistent_state :: nat where
  "persistent_state = 0"

definition initial_heap :: "'st native_lib \<Rightarrow> 'st heap" where
  "initial_heap N = \<lparr>objs = (\<lambda>_. State_new N), next_ref = 1\<rparr>"

section \<open>The Packaide interface\<close>

definition SVG_RETAIN_ATTRS :: "string list" where
  "SVG_RETAIN_ATTRS = [
    ''alignment-baseline'', ''baseline-shift'', ''clip'', ''clip-path'', ''clip-rule'',
    ''color'', ''color-interpolation'', ''color-interpolation-filters'', ''color-profile'',
    ''color-rendering'', ''direction'', ''display'', ''dominant-baseline'',
    ''enable-background'', ''fill'', ''fill-opacity'', ''fill-rule'', ''filter'',
    ''flood-color'', ''flood-opacity'', ''lighting-color'', ''marker-end'', ''marker-mid'',
    ''marker-start'', ''mask'', ''opacity'', ''overflow'', ''shape-rendering'',
    ''stop-color'', ''stop-opacity'', ''stroke'', ''stroke-dasharray'',
    ''stroke-dashoffset'', ''stroke-linecap'', ''stroke-linejoin'', ''stroke-miterlimit'',
    ''stroke-opacity'', ''stroke-width'', ''vector-effect'', ''visibility'', ''class'',
    ''id'', ''name'']"

text \<open>
  A path element of the output: the path data of the source element, the retained
  attributes, and the numbers of its \<open>translate(tx,ty) rotate(r,px,py)\<close> transform.
\<close>

record placed_shape =
  ps_d :: path
  ps_attrs :: "(string \<times> string) list"
  ps_transform :: "real \<times> real \<times> real \<times> real \<times> real"

text \<open>An output document: the sheet's root emptied of its children, then the placed shapes.\<close>

record output_doc =
  out_viewBox :: "real list"
  out_shapes :: "placed_shape list"

definition flatten_shape :: "svg_element \<Rightarrow> path \<times> (string \<times> string) list" where
  "flatten_shape element =
     (el_path element,
      concat (map (\<lambda>attr. case el_values element attr of None \<Rightarrow> [] | Some v \<Rightarrow> [(attr, v)])
                SVG_RETAIN_ATTRS))"

text \<open>Indexing a Python list: a negative index counts from the end.\<close>

definition py_index :: "'a list \<Rightarrow> int \<Rightarrow> py_error + 'a" where
  "py_index xs i =
     (let n = int (length xs) in
      if 0 \<le> i \<and> i < n then Inr (xs ! nat i)
      else if - n \<le> i \<and> i < 0 then Inr (xs ! nat (n + i))
      else Inl IndexError)"

text \<open>The state expression at the head of \<open>pack\<close>; \<open>State()\<close> allocates a new object.\<close>

definition select_state :: "'st native_lib \<Rightarrow> 'st heap \<Rightarrow> bool \<Rightarrow> nat option \<Rightarrow> nat \<times> 'st heap" where
  "select_state N h persist custom_state =
     (if persist \<and> custom_state \<noteq> None then (the custom_state, h)
      else if persist then (persistent_state, h)
      else (next_ref h,
            h\<lparr>objs := (objs h)(next_ref h := State_new N), next_ref := Suc (next_ref h)\<rparr>))"

text \<open>The loop over \<open>sheet_svgs\<close> that builds the sheets.\<close>

fun make_sheets ::
  "shapely_lib \<Rightarrow> 'st native_lib \<Rightarrow> svg_document list \<Rightarrow> real \<Rightarrow> real \<Rightarrow> 'st \<Rightarrow>
     (py_error + Sheet list) \<times> 'st" where
  "make_sheets L N [] tolerance offset state = (Inr [], state)"
| "make_sheets L N (svg_string # svgs) tolerance offset state =
     (case extract_polygons L svg_string tolerance offset of
        Inl err \<Rightarrow> (Inl err, state)
      | Inr (_, hs) \<Rightarrow>
          (case get_sheet_dimensions svg_string of
             Inl err \<Rightarrow> (Inl err, state)
           | Inr (h, w) \<Rightarrow>
               (case sheet_add_holes N \<lparr>height = h, width = w, sheet_holes = []\<rparr>
                       (map boundary hs) state of
                  (sheet, state') \<Rightarrow>
                    (case make_sheets L N svgs tolerance offset state' of
                       (Inl err, state'') \<Rightarrow> (Inl err, state'')
                     | (Inr sheets, state'') \<Rightarrow> (Inr (sheet # sheets), state'')))))"

text \<open>The body of the loop over the placements of one sheet.\<close>

definition place_shape ::
  "svg_element list \<Rightarrow> PolygonWithHoles list \<Rightarrow> Placement \<Rightarrow> py_error + placed_shape" where
  "place_shape elements polygons placement =
     (case py_index polygons (polygon_id placement) of
        Inl err \<Rightarrow> Inl err
      | Inr poly \<Rightarrow>
          (case boundary poly of
             [] \<Rightarrow> Inl IndexError
           | p0 # _ \<Rightarrow>
               (let px = fst p0; py = snd p0;
                    tx = fst (translate (transform placement)) - px;
                    ty = snd (translate (transform placement)) - py;
                    r = rotate_angle (transform placement)
                in case py_index elements (polygon_id placement) of
                     Inl err \<Rightarrow> Inl err
                   | Inr element \<Rightarrow>
                       Inr \<lparr>ps_d = fst (flatten_shape element),
                            ps_attrs = snd (flatten_shape element),
                            ps_transform = (tx, ty, r, px, py)\<rparr>)))"

fun place_all ::
  "svg_element list \<Rightarrow> PolygonWithHoles list \<Rightarrow> Placement list \<Rightarrow> py_error + placed_shape list" where
  "place_all elements polygons [] = Inr []"
| "place_all elements polygons (placement # ps) =
     (case place_shape elements polygons placement of
        Inl err \<Rightarrow> Inl err
      | Inr shape \<Rightarrow>
          (case place_all elements polygons ps of
             Inl err \<Rightarrow> Inl err
           | Inr shapes \<Rightarrow> Inr (shape # shapes)))"

text \<open>The loop \<open>for i in range(len(packing_output))\<close>, from index \<open>i\<close> on.\<close>

fun emit_sheets ::
  "svg_document list \<Rightarrow> svg_element list \<Rightarrow> PolygonWithHoles list \<Rightarrow> nat \<Rightarrow>
     Placement list list \<Rightarrow> py_error + (nat \<times> output_doc) list" where
  "emit_sheets sheet_svgs elements polygons i [] = Inr []"
| "emit_sheets sheet_svgs elements polygons i (placements # rest) =
     (if i < length sheet_svgs
      then (case place_all elements polygons placements of
              Inl err \<Rightarrow> Inl err
            | Inr shapes \<Rightarrow>
                (case emit_sheets sheet_svgs elements polygons (Suc i) rest of
                   Inl err \<Rightarrow> Inl err
                 | Inr outputs \<Rightarrow>
                     Inr ((i, \<lparr>out_viewBox = viewBox (sheet_svgs ! i), out_shapes = shapes\<rparr>)
                          # outputs)))
      else Inl IndexError)"

text \<open>Everything in \<open>pack\<close> after the call of \<open>pack_decreasing\<close>.\<close>

definition pack_output ::
  "svg_document list \<Rightarrow> svg_element list \<Rightarrow> PolygonWithHoles list \<Rightarrow> Placement list list \<Rightarrow>
     bool \<Rightarrow> py_error + ((nat \<times> output_doc) list \<times> int \<times> int)" where
  "pack_output sheet_svgs elements polygons packing_output partial_solution =
     (case emit_sheets sheet_svgs elements polygons 0 packing_output of
        Inl err \<Rightarrow> Inl err
      | Inr outputs \<Rightarrow>
          (let successfully_placed = map polygon_id (concat packing_output) in
           if length successfully_placed \<noteq> card (set successfully_placed) then Inl AssertionError
           else if \<not> length successfully_placed \<le> length polygons then Inl AssertionError
           else if \<not> partial_solution \<and>
                   \<not> (length successfully_placed = 0 \<or>
                      length successfully_placed = length polygons)
           then Inl AssertionError
           else Inr (outputs, int (length successfully_placed),
                     int (length polygons) - int (length successfully_placed))))"

text \<open>
  \<open>pack\<close> up to and including the call of \<open>pack_decreasing\<close>, on the contents of the
  selected state: the retained elements, their polygons, and the placements the native
  library returns.
\<close>

definition pack_run ::
  "shapely_lib \<Rightarrow> 'st native_lib \<Rightarrow> 'st \<Rightarrow> svg_document list \<Rightarrow> svg_document \<Rightarrow> real \<Rightarrow> real \<Rightarrow>
     bool \<Rightarrow> int \<Rightarrow>
     (py_error + (svg_element list \<times> PolygonWithHoles list \<times> Placement list list)) \<times> 'st" where
  "pack_run L N state sheet_svgs shapes offset tolerance partial_solution rotations =
     (case extract_polygons L shapes tolerance offset of
        Inl err \<Rightarrow> (Inl err, state)
      | Inr (elements, polygons) \<Rightarrow>
          (if length elements \<noteq> length polygons then (Inl AssertionError, state)
           else (case make_sheets L N sheet_svgs tolerance offset state of
                   (Inl err, state') \<Rightarrow> (Inl err, state')
                 | (Inr sheets, state') \<Rightarrow>
                     (case pack_decreasing N sheets polygons state' partial_solution rotations of
                        (packing_output, state'') \<Rightarrow>
                          (Inr (elements, polygons, packing_output), state'')))))"

definition pack_body ::
  "shapely_lib \<Rightarrow> 'st native_lib \<Rightarrow> 'st \<Rightarrow> svg_document list \<Rightarrow> svg_document \<Rightarrow> real \<Rightarrow> real \<Rightarrow>
     bool \<Rightarrow> int \<Rightarrow> (py_error + ((nat \<times> output_doc) list \<times> int \<times> int)) \<times> 'st" where
  "pack_body L N state sheet_svgs shapes offset tolerance partial_solution rotations =
     (case pack_run L N state sheet_svgs shapes offset tolerance partial_solution rotations of
        (Inl err, state') \<Rightarrow> (Inl err, state')
      | (Inr (elements, polygons, packing_output), state') \<Rightarrow>
          (pack_output sheet_svgs elements polygons packing_output partial_solution, state'))"

text \<open>
  \<open>pack\<close>: the selected state object is the one handed to the native library, and the
  one its updates are written to.
\<close>

definition pack ::
  "shapely_lib \<Rightarrow> 'st native_lib \<Rightarrow> 'st heap \<Rightarrow> svg_document list \<Rightarrow> svg_document \<Rightarrow> real \<Rightarrow> real \<Rightarrow>
     bool \<Rightarrow> int \<Rightarrow> bool \<Rightarrow> nat option \<Rightarrow>
     (py_error + ((nat \<times> output_doc) list \<times> int \<times> int)) \<times> 'st heap" where
  "pack L N h sheet_svgs shapes offset tolerance partial_solution rotations persist custom_state =
     (case select_state N h persist custom_state of
        (state, h') \<Rightarrow>
          (case pack_body L N (objs h' state) sheet_svgs shapes offset tolerance
                  partial_solution rotations of
             (result, st') \<Rightarrow> (result, h'\<lparr>objs := (objs h')(state := st')\<rparr>)))"

definition blank_sheet :: "real \<Rightarrow> real \<Rightarrow> svg_document" where
  "blank_sheet w h = \<lparr>viewBox = [0, 0, w, h], doc_elements = []\<rparr>"

text \<open>
  The value of the local variable \<open>packing_output\<close> in a call of \<open>pack\<close>: what
  \<open>pack_decreasing\<close> returned (no placements when the call raised before).
\<close>

definition packing_output_of ::
  "shapely_lib \<Rightarrow> 'st native_lib \<Rightarrow> 'st heap \<Rightarrow> svg_document list \<Rightarrow> svg_document \<Rightarrow> real \<Rightarrow> real \<Rightarrow>
     bool \<Rightarrow> int \<Rightarrow> bool \<Rightarrow> nat option \<Rightarrow> Placement list list" where
  "packing_output_of L N h sheet_svgs shapes offset tolerance partial_solution rotations
       persist custom_state =
     (case select_state N h persist custom_state of
        (state, h') \<Rightarrow>
          (case fst (pack_run L N (objs h' state) sheet_svgs shapes offset tolerance
                       partial_solution rotations) of
             Inl _ \<Rightarrow> []
           | Inr (_, _, packing_output) \<Rightarrow> packing_output))"

text \<open>
  A document with other hole subpaths: every element keeps its class, its values, its
  number of segments and its first subpath, and gets the subpaths \<open>f e\<close> after it.
\<close>

definition replace_holes :: "(svg_element \<Rightarrow> subpath list) \<Rightarrow> svg_document \<Rightarrow> svg_document" where
  "replace_holes f doc =
     doc\<lparr>doc_elements :=
           map (\<lambda>e. e\<lparr>el_path := (el_path e)\<lparr>rest_subpaths := f e\<rparr>\<rparr>) (doc_elements doc)\<rparr>"

text \<open>
  The calls of \<open>sheet_add_holes\<close> that build the sheets, in order: each on a new sheet
  of the given height and width, with the given polygons and the state that the call
  before it left.
\<close>

fun add_sheets ::
  "'st native_lib \<Rightarrow> (real \<times> real \<times> point list list) list \<Rightarrow> 'st \<Rightarrow> Sheet list \<times> 'st" where
  "add_sheets N [] state = ([], state)"
| "add_sheets N ((h, w, bs) # calls) state =
     (case sheet_add_holes N \<lparr>height = h, width = w, sheet_holes = []\<rparr> bs state of
        (sheet, state') \<Rightarrow>
          (case add_sheets N calls state' of
             (sheets, state'') \<Rightarrow> (sheet # sheets, state'')))"

section \<open>The placement engine of the native library, from the specification\<close>


















section \<open>Example inputs\<close>

text \<open>
  The boundary of the axis-aligned rectangle with corner \<open>(x0, y0)\<close>, width \<open>w\<close> and
  height \<open>h\<close>, traversed once as \<open>t\<close> runs from 0 to 1.
\<close>

definition rect_point :: "real \<Rightarrow> real \<Rightarrow> real \<Rightarrow> real \<Rightarrow> real \<Rightarrow> point" where
  "rect_point x0 y0 w h t =
     (if t \<le> 1/4 then (x0 + 4 * t * w, y0)
      else if t \<le> 1/2 then (x0 + w, y0 + (4 * t - 1) * h)
      else if t \<le> 3/4 then (x0 + (3 - 4 * t) * w, y0 + h)
      else (x0, y0 + (4 - 4 * t) * h))"

definition rect_subpath :: "real \<Rightarrow> real \<Rightarrow> real \<Rightarrow> real \<Rightarrow> subpath" where
  "rect_subpath x0 y0 w h = \<lparr>sp_length = 2 * (w + h), sp_point = rect_point x0 y0 w h\<rparr>"

text \<open>The element \<open><rect x="x0" y="y0" width="w" height="h"/>\<close> with the given values.\<close>

definition rect_element ::
  "(string \<rightharpoonup> string) \<Rightarrow> real \<Rightarrow> real \<Rightarrow> real \<Rightarrow> real \<Rightarrow> svg_element" where
  "rect_element vs x0 y0 w h =
     \<lparr>kind = ShapeElement, el_values = vs,
      el_path = \<lparr>path_len = 5, first_subpath = rect_subpath x0 y0 w h, rest_subpaths = []\<rparr>\<rparr>"

text \<open>A path element: a square of side 60 with a square hole of side 40.\<close>

definition ring_element :: svg_element where
  "ring_element =
     \<lparr>kind = PathElement, el_values = Map.empty,
      el_path = \<lparr>path_len = 10, first_subpath = rect_subpath 0 0 60 60,
                 rest_subpaths = [rect_subpath 10 10 40 40]\<rparr>\<rparr>"

text \<open>
  A stand-in for Shapely on axis-aligned rectangles, where a mitred buffer is the
  bounding box grown by the distance; \<open>simplify\<close> has nothing to remove there.
\<close>

definition box_buffer :: "shapely_geom \<Rightarrow> real \<Rightarrow> nat \<Rightarrow> nat \<Rightarrow> real \<Rightarrow> shapely_geom" where
  "box_buffer g d cap join mitre =
     (case g of
        SMultiPolygon ms \<Rightarrow> g
      | SPolygon cs \<Rightarrow>
          (case cs of
             [] \<Rightarrow> g
           | c # _ \<Rightarrow>
               (let x0 = fold min (map fst cs) (fst c) - d; x1 = fold max (map fst cs) (fst c) + d;
                    y0 = fold min (map snd cs) (snd c) - d; y1 = fold max (map snd cs) (snd c) + d
                in if x0 < x1 \<and> y0 < y1
                   then SPolygon [(x0, y0), (x1, y0), (x1, y1), (x0, y1), (x0, y0)]
                   else SPolygon [])))"

definition box_lib :: shapely_lib where
  "box_lib = \<lparr>buffer = box_buffer, simplify = (\<lambda>g t. g)\<rparr>"

text \<open>
  A stand-in for the native library: the state counts the polygons it has seen, and
  every polygon is put on the first sheet where the document has it.
\<close>

definition row_native :: "nat native_lib" where
  "row_native =
     \<lparr>State_new = 0,
      sheet_add_holes = (\<lambda>sheet hs st.
        (sheet\<lparr>sheet_holes := map (\<lambda>b. \<lparr>boundary = b, holes = []\<rparr>) hs\<rparr>, st + length hs)),
      pack_decreasing = (\<lambda>sheets polygons st partial_solution rotations.
        ((case sheets of
            [] \<Rightarrow> []
          | _ # _ \<Rightarrow>
              [map (\<lambda>i. \<lparr>polygon_id = int i,
                          transform = \<lparr>translate = (case boundary (polygons ! i) of
                                                       [] \<Rightarrow> (0, 0) | v # _ \<Rightarrow> v),
                                       rotate_angle = 0\<rparr>\<rparr>)
                   [0..<length polygons]]),
         st + length polygons))\<rparr>"

definition one_square :: svg_document where
  "one_square = \<lparr>viewBox = [0, 0, 100, 100], doc_elements = [rect_element Map.empty 0 0 10 10]\<rparr>"

definition hidden_square :: svg_element where
  "hidden_square =
     (rect_element [''hidden'' \<mapsto> ''true'', ''visibility'' \<mapsto> ''hidden''] 0 0 10 10)
       \<lparr>kind := PathElement\<rparr>"

definition invisible_square :: svg_element where
  "invisible_square = rect_element [''visibility'' \<mapsto> ''hidden''] 0 0 10 10"

text \<open>
  A store with the shared State (reference 0) and one more State (reference 1), both
  with the stand-in library's count 0.
\<close>

definition two_state_heap :: "nat heap" where
  "two_state_heap = \<lparr>objs = (\<lambda>_. 0), next_ref = 2\<rparr>"

text \<open>
  A stand-in for the native library that places only the first \<open>k\<close> polygons, on the
  first sheet.
\<close>

definition prefix_native :: "nat \<Rightarrow> nat native_lib" where
  "prefix_native k =
     row_native\<lparr>pack_decreasing := (\<lambda>sheets polygons st partial_solution rotations.
        ((case sheets of
            [] \<Rightarrow> []
          | _ # _ \<Rightarrow>
              [map (\<lambda>i. \<lparr>polygon_id = int i,
                          transform = \<lparr>translate = (case boundary (polygons ! i) of
                                                       [] \<Rightarrow> (0, 0) | v # _ \<Rightarrow> v),
                                       rotate_angle = 0\<rparr>\<rparr>)
                   [0..<min k (length polygons)]]),
         st + min k (length polygons)))\<rparr>"

text \<open>A document with two squares, and the output shape of one of them left in place.\<close>

definition two_squares :: svg_document where
  "two_squares =
     \<lparr>viewBox = [0, 0, 100, 100],
      doc_elements = [rect_element Map.empty 0 0 10 10, rect_element Map.empty 0 0 10 10]\<rparr>"

definition placed_square :: placed_shape where
  "placed_square =
     \<lparr>ps_d = el_path (rect_element Map.empty 0 0 10 10), ps_attrs = [],
      ps_transform = (0, 0, 0, -20, -20)\<rparr>"

definition ring_doc :: svg_document where
  "ring_doc = \<lparr>viewBox = [0, 0, 100, 100], doc_elements = [ring_element]\<rparr>"

definition one_square_outputs :: "(nat \<times> output_doc) list" where
  "one_square_outputs =
     [(0, \<lparr>out_viewBox = [0, 0, 100, 100],
            out_shapes = [\<lparr>ps_d = el_path (rect_element Map.empty 0 0 10 10),
                           ps_attrs = [],
                           ps_transform = (0, 0, 0, -20, -20)\<rparr>]\<rparr>)]"









text \<open>The polygon of the square of side 10 at tolerance 10 and offset 5.\<close>

definition dilated_square :: PolygonWithHoles where
  "dilated_square = \<lparr>boundary = [(-20,-20), (30,-20), (30,30), (-20,30)], holes = []\<rparr>"

text \<open>A sheet of 200 by 200 with a square obstacle in its corner.\<close>

definition sheet_with_square :: svg_document where
  "sheet_with_square =
     \<lparr>viewBox = [0, 0, 200, 200], doc_elements = [rect_element Map.empty 0 0 10 10]\<rparr>"



section \<open>Properties of the ingest\<close>

lemma gather_paths_Inr:
  "gather_paths tolerance es = Inr (elements, paths) \<Longrightarrow>
     elements = filter (\<lambda>e. is_hidden e = Inr False \<and> is_retained e tolerance) es \<and>
     paths = map el_path elements"
proof (induction es arbitrary: elements paths)
  case Nil
  then show ?case by simp
next
  case (Cons e es)
  show ?case
  proof (cases "is_hidden e")
    case (Inl err)
    with Cons.prems show ?thesis by simp
  next
    case (Inr b)
    show ?thesis
    proof (cases "b \<or> \<not> is_retained e tolerance")
      case True
      with Inr Cons.prems have "gather_paths tolerance es = Inr (elements, paths)"
        by (auto split: if_splits bool.splits)
      from Cons.IH[OF this] True Inr show ?thesis by auto
    next
      case False
      with Inr Cons.prems obtain els ps where
        r: "gather_paths tolerance es = Inr (els, ps)" and
        e: "elements = e # els" "paths = el_path e # ps"
        by (auto split: sum.splits bool.splits)
      from Cons.IH[OF r] e False Inr show ?thesis by auto
    qed
  qed
qed

lemma path_polygons_length:
  "path_polygons L tolerance ps = Inr sps \<Longrightarrow> length sps = length ps"
  by (induction ps arbitrary: sps) (auto split: sum.splits)

lemma convert_polygons_length:
  "convert_polygons L offset sps = Inr polygons \<Longrightarrow> length polygons = length sps"
  by (induction L offset sps arbitrary: polygons rule: convert_polygons.induct)
     (auto split: sum.splits)

lemma extract_shapely_polygons_Inr:
  assumes "extract_shapely_polygons L doc tolerance = Inr (elements, sps)"
  shows "elements = filter (\<lambda>e. is_hidden e = Inr False \<and> is_retained e tolerance) (doc_elements doc)"
    and "path_polygons L tolerance (map el_path elements) = Inr sps"
    and "length sps = length elements"
  using assms gather_paths_Inr[of tolerance "doc_elements doc"]
  by (auto simp: extract_shapely_polygons_def split: sum.splits if_splits)

lemma extract_polygons_Inr:
  assumes "extract_polygons L doc tolerance offset = Inr (elements, polygons)"
  shows "\<exists>sps. extract_shapely_polygons L doc tolerance = Inr (elements, sps) \<and>
           convert_polygons L offset sps = Inr polygons"
  using assms by (auto simp: extract_polygons_def split: sum.splits if_splits)

lemma extract_polygons_length:
  assumes "extract_polygons L doc tolerance offset = Inr (elements, polygons)"
  shows "length polygons = length elements"
  using extract_polygons_Inr[OF assms] extract_shapely_polygons_Inr(3) convert_polygons_length
  by fastforce

lemma pack_output_Inr:
  assumes "pack_output sheet_svgs elements polygons po partial_solution = Inr (outputs, placed, failed)"
  shows "emit_sheets sheet_svgs elements polygons 0 po = Inr outputs"
    and "distinct (map polygon_id (concat po))"
    and "placed = int (length (concat po))"
    and "failed = int (length polygons) - placed"
    and "0 \<le> failed"
    and "\<not> partial_solution \<Longrightarrow> placed = 0 \<or> failed = 0"
  using assms
  by (auto simp: pack_output_def Let_def card_distinct split: sum.splits if_splits)

lemma pack_run_Inr:
  assumes "pack_run L N st sheet_svgs shapes offset tolerance partial_solution rotations =
             (Inr (elements, polygons, po), st')"
  shows "extract_polygons L shapes tolerance offset = Inr (elements, polygons)"
  using assms
  by (auto simp: pack_run_def split: sum.splits if_splits prod.splits)

section \<open>The examples, evaluated\<close>

lemma rect_closed: "0 < tol \<Longrightarrow> is_closed_subpath (rect_subpath x0 y0 w h) tol"
  by (simp add: is_closed_subpath_def rect_subpath_def rect_point_def distance_to_def)

lemma rect_retained: "0 < tol \<Longrightarrow> is_retained (rect_element vs x0 y0 w h) tol"
  by (simp add: is_retained_def rect_element_def is_closed_def get_boundary_def rect_closed)

lemma upt_4: "[0..<4] = [0, 1, 2, 3::nat]"
  by (simp add: upt_conv_Cons eval_nat_numeral)

lemma discretize_square:
  "discretize_path (rect_subpath 0 0 10 10) 10 =
     Inr (SPolygon [(0,0), (10,0), (10,10), (0,10), (0,0)])"
  by (simp add: discretize_path_def rect_subpath_def to_shapely_polygon_def upt_4
        rect_point_def)

lemma square_polygon:
  "path_polygon box_lib 10 (el_path (rect_element vs 0 0 10 10)) =
     Inr (SPolygon [(-15,-15), (25,-15), (25,25), (-15,25), (-15,-15)], [])"
  by (simp add: path_polygon_def rect_element_def discretize_square)
     (simp add: box_lib_def dilate_def box_buffer_def)

lemma extract_shapely_one_square:
  "extract_shapely_polygons box_lib one_square 10 =
     Inr ([rect_element Map.empty 0 0 10 10],
          [(SPolygon [(-15,-15), (25,-15), (25,25), (-15,25), (-15,-15)], [])])"
proof -
  have "is_hidden (rect_element Map.empty 0 0 10 10) = Inr False"
    by (simp add: is_hidden_def rect_element_def)
  then show ?thesis
    by (simp add: extract_shapely_polygons_def get_sheet_dimensions_def one_square_def
          rect_retained square_polygon)
qed

lemma dilate_box:
  "dilate box_lib (SPolygon [(-15,-15), (25,-15), (25,25), (-15,25), (-15,-15)]) 5 =
     SPolygon [(-20,-20), (30,-20), (30,30), (-20,30), (-20,-20)]"
  by (simp add: box_lib_def dilate_def box_buffer_def)

lemma extract_one_square:
  "extract_polygons box_lib one_square 10 5 =
     Inr ([rect_element Map.empty 0 0 10 10],
          [\<lparr>boundary = [(-20,-20), (30,-20), (30,30), (-20,30)], holes = []\<rparr>])"
  by (simp add: extract_polygons_def extract_shapely_one_square dilate_box
        exterior_coords_def ring_points_def)

lemma extract_blank_sheet:
  "extract_polygons L (blank_sheet w h) tol off = Inr ([], [])"
  by (simp add: extract_polygons_def extract_shapely_polygons_def get_sheet_dimensions_def
        blank_sheet_def)

lemma make_sheets_blank:
  "make_sheets box_lib row_native [blank_sheet 100 100] 10 5 st =
     (Inr [\<lparr>height = 100, width = 100, sheet_holes = []\<rparr>], st)"
  by (simp add: extract_blank_sheet) (simp add: get_sheet_dimensions_def blank_sheet_def row_native_def)

lemma pack_run_one_square:
  "pack_run box_lib row_native st [blank_sheet 100 100] one_square 5 10 partial_solution 1 =
     (Inr ([rect_element Map.empty 0 0 10 10],
           [\<lparr>boundary = [(-20,-20), (30,-20), (30,30), (-20,30)], holes = []\<rparr>],
           [[\<lparr>polygon_id = 0, transform = \<lparr>translate = (-20,-20), rotate_angle = 0\<rparr>\<rparr>]]),
      st + 1)"
  by (simp add: pack_run_def extract_one_square make_sheets_blank del: make_sheets.simps)
     (simp add: row_native_def)

lemma pack_body_one_square:
  "pack_body box_lib row_native st [blank_sheet 100 100] one_square 5 10 partial_solution 1 =
     (Inr (one_square_outputs, 1, 0), st + 1)"
  by (simp add: pack_body_def pack_run_one_square)
     (simp add: pack_output_def place_shape_def py_index_def flatten_shape_def
        blank_sheet_def rect_element_def one_square_outputs_def)

lemma upt_16: "[0..<16] = [0, 1, 2, 3, 4, 5, 6, 7, 8, 9, 10, 11, 12, 13, 14, 15::nat]"
  by (simp add: upt_conv_Cons eval_nat_numeral)

lemma upt_24: "[0..<24] = [0, 1, 2, 3, 4, 5, 6, 7, 8, 9, 10, 11, 12, 13, 14, 15, 16, 17, 18,
    19, 20, 21, 22, 23::nat]"
  by (simp add: upt_conv_Cons eval_nat_numeral)

lemma ring_boundary:
  "\<exists>cs. discretize_path (rect_subpath 0 0 60 60) 10 = Inr (SPolygon cs) \<and>
     dilate box_lib (SPolygon cs) 15 = SPolygon [(-15,-15), (75,-15), (75,75), (-15,75), (-15,-15)]"
  by (simp add: discretize_path_def rect_subpath_def to_shapely_polygon_def upt_24
        rect_point_def box_lib_def dilate_def box_buffer_def)

lemma ring_hole:
  "\<exists>cs. discretize_path (rect_subpath 10 10 40 40) 10 = Inr (SPolygon cs) \<and>
     erode box_lib (SPolygon cs) 15 = SPolygon [(25,25), (35,25), (35,35), (25,35), (25,25)]"
  by (simp add: discretize_path_def rect_subpath_def to_shapely_polygon_def upt_16
        rect_point_def box_lib_def erode_def box_buffer_def)

section \<open>Properties of \<open>pack\<close>\<close>

lemma pack_fst:
  "fst (pack L N h sheet_svgs shapes offset tolerance partial_solution rotations persist custom_state) =
     fst (pack_body L N (objs (snd (select_state N h persist custom_state))
                           (fst (select_state N h persist custom_state)))
            sheet_svgs shapes offset tolerance partial_solution rotations)"
  by (simp add: pack_def split: prod.splits)

lemma pack_body_Inr:
  assumes "fst (pack_body L N st sheet_svgs shapes offset tolerance partial_solution rotations) =
             Inr result"
  shows "\<exists>elements polygons po.
           fst (pack_run L N st sheet_svgs shapes offset tolerance partial_solution rotations) =
             Inr (elements, polygons, po) \<and>
           pack_output sheet_svgs elements polygons po partial_solution = Inr result"
  using assms by (auto simp: pack_body_def split: prod.splits sum.splits)

lemma pack_run_elements:
  assumes "fst (pack_run L N st sheet_svgs shapes offset tolerance partial_solution rotations) =
             Inr (elements, polygons, po)"
  shows "elements = filter (\<lambda>e. is_hidden e = Inr False \<and> is_retained e tolerance) (doc_elements shapes)"
    and "length polygons = length elements"
proof -
  obtain st' where "pack_run L N st sheet_svgs shapes offset tolerance partial_solution rotations =
      (Inr (elements, polygons, po), st')"
    using assms by (cases "pack_run L N st sheet_svgs shapes offset tolerance partial_solution rotations") simp
  then have ex: "extract_polygons L shapes tolerance offset = Inr (elements, polygons)"
    by (rule pack_run_Inr)
  from extract_polygons_Inr[OF ex] extract_shapely_polygons_Inr(1)
  show "elements = filter (\<lambda>e. is_hidden e = Inr False \<and> is_retained e tolerance) (doc_elements shapes)"
    by blast
  from extract_polygons_length[OF ex] show "length polygons = length elements" .
qed

lemma pack_Inr:
  assumes "fst (pack L N h sheet_svgs shapes offset tolerance partial_solution rotations persist
                  custom_state) = Inr (outputs, placed, failed)"
  shows "\<exists>elements polygons.
           elements = filter (\<lambda>e. is_hidden e = Inr False \<and> is_retained e tolerance) (doc_elements shapes) \<and>
           length polygons = length elements \<and>
           pack_output sheet_svgs elements polygons
             (packing_output_of L N h sheet_svgs shapes offset tolerance partial_solution rotations
                persist custom_state) partial_solution = Inr (outputs, placed, failed)"
proof -
  let ?st = "objs (snd (select_state N h persist custom_state))
               (fst (select_state N h persist custom_state))"
  from assms have "fst (pack_body L N ?st sheet_svgs shapes offset tolerance partial_solution rotations) =
      Inr (outputs, placed, failed)"
    by (simp add: pack_fst)
  from pack_body_Inr[OF this] obtain elements polygons po where
    run: "fst (pack_run L N ?st sheet_svgs shapes offset tolerance partial_solution rotations) =
             Inr (elements, polygons, po)" and
    out: "pack_output sheet_svgs elements polygons po partial_solution = Inr (outputs, placed, failed)"
    by blast
  have "packing_output_of L N h sheet_svgs shapes offset tolerance partial_solution rotations
          persist custom_state = po"
    using run by (simp add: packing_output_of_def case_prod_beta)
  with out pack_run_elements[OF run] show ?thesis by blast
qed

lemma emit_sheets_empty:
  "emit_sheets sheet_svgs elements polygons i po = Inr outputs \<Longrightarrow> concat po = [] \<Longrightarrow>
     list_all (\<lambda>out. out_shapes (snd out) = []) outputs"
  by (induction po arbitrary: i outputs) (auto split: sum.splits if_splits)

lemma pack_one_square:
  "fst (pack box_lib row_native h [blank_sheet 100 100] one_square 5 10 partial_solution 1
          persist custom_state) = Inr (one_square_outputs, 1, 0)"
  by (simp add: pack_fst pack_body_one_square)

lemma extract_shapely_square:
  assumes "is_hidden (rect_element vs 0 0 10 10) = Inr False"
  shows "extract_shapely_polygons box_lib
           \<lparr>viewBox = [0, 0, 100, 100], doc_elements = [rect_element vs 0 0 10 10]\<rparr> 10 =
         Inr ([rect_element vs 0 0 10 10],
              [(SPolygon [(-15,-15), (25,-15), (25,25), (-15,25), (-15,-15)], [])])"
  using assms
  by (simp add: extract_shapely_polygons_def get_sheet_dimensions_def rect_retained
        square_polygon)

lemma extract_square:
  assumes "is_hidden (rect_element vs 0 0 10 10) = Inr False"
  shows "extract_polygons box_lib
           \<lparr>viewBox = [0, 0, 100, 100], doc_elements = [rect_element vs 0 0 10 10]\<rparr> 10 5 =
         Inr ([rect_element vs 0 0 10 10],
              [\<lparr>boundary = [(-20,-20), (30,-20), (30,30), (-20,30)], holes = []\<rparr>])"
  by (simp add: extract_polygons_def extract_shapely_square[OF assms] dilate_box
        exterior_coords_def ring_points_def)

lemma pack_run_square:
  assumes "is_hidden (rect_element vs 0 0 10 10) = Inr False"
  shows "pack_run box_lib row_native st [blank_sheet 100 100]
           \<lparr>viewBox = [0, 0, 100, 100], doc_elements = [rect_element vs 0 0 10 10]\<rparr>
           5 10 partial_solution 1 =
         (Inr ([rect_element vs 0 0 10 10],
               [\<lparr>boundary = [(-20,-20), (30,-20), (30,30), (-20,30)], holes = []\<rparr>],
               [[\<lparr>polygon_id = 0,
                  transform = \<lparr>translate = (-20,-20), rotate_angle = 0\<rparr>\<rparr>]]),
          st + 1)"
  by (simp add: pack_run_def extract_square[OF assms] make_sheets_blank del: make_sheets.simps)
     (simp add: row_native_def)

lemma invisible_not_hidden: "is_hidden invisible_square = Inr False"
  by (simp add: is_hidden_def invisible_square_def rect_element_def)

lemma hidden_is_hidden: "is_hidden hidden_square = Inr True"
  by (simp add: is_hidden_def hidden_square_def rect_element_def)

section \<open>The polygons of a document\<close>

lemma path_polygons_Inr:
  "path_polygons L tolerance ps = Inr sps \<Longrightarrow>
     list_all2 (\<lambda>p bh. \<exists>d hs. discretize_path (first_subpath p) tolerance = Inr d \<and>
                   hole_polygons L tolerance (rest_subpaths p) = Inr hs \<and>
                   bh = (simplify L (dilate L d (1.5 * tolerance)) tolerance, hs)) ps sps"
proof (induction ps arbitrary: sps)
  case Nil
  then show ?case by simp
next
  case (Cons p ps)
  from Cons.prems obtain bh rest where
    bh: "path_polygon L tolerance p = Inr bh" and
    rest: "path_polygons L tolerance ps = Inr rest" and
    sps: "sps = bh # rest"
    by (auto split: sum.splits)
  from bh have "\<exists>d hs. discretize_path (first_subpath p) tolerance = Inr d \<and>
      hole_polygons L tolerance (rest_subpaths p) = Inr hs \<and>
      bh = (simplify L (dilate L d (1.5 * tolerance)) tolerance, hs)"
    by (auto simp: path_polygon_def Let_def split: sum.splits)
  with Cons.IH[OF rest] sps show ?case by simp
qed

lemma convert_polygons_Inr:
  "convert_polygons L offset sps = Inr polygons \<Longrightarrow>
     list_all2 (\<lambda>bh p. (\<exists>cs. exterior_coords (dilate L (fst bh) offset) = Inr cs \<and>
                          boundary p = ring_points cs) \<and>
                   holes p = add_holes (snd bh)) sps polygons"
proof (induction sps arbitrary: polygons)
  case Nil
  then show ?case by simp
next
  case (Cons bh sps)
  obtain b hs where bh: "bh = (b, hs)" by (cases bh)
  from Cons.prems bh obtain cs rest where
    cs: "exterior_coords (dilate L b offset) = Inr cs" and
    rest: "convert_polygons L offset sps = Inr rest" and
    p: "polygons = \<lparr>boundary = ring_points cs, holes = add_holes hs\<rparr> # rest"
    by (auto split: sum.splits)
  from Cons.IH[OF rest] cs p bh show ?case by simp
qed

lemma extract_polygons_pipeline:
  assumes "extract_polygons L doc tolerance offset = Inr (elements, polygons)"
  shows "list_all2 (\<lambda>e p. \<exists>d hs cs.
           discretize_path (first_subpath (el_path e)) tolerance = Inr d \<and>
           hole_polygons L tolerance (rest_subpaths (el_path e)) = Inr hs \<and>
           exterior_coords
             (dilate L (simplify L (dilate L d (1.5 * tolerance)) tolerance) offset) = Inr cs \<and>
           boundary p = ring_points cs \<and> holes p = add_holes hs) elements polygons"
proof -
  from extract_polygons_Inr[OF assms] obtain sps where
    es: "extract_shapely_polygons L doc tolerance = Inr (elements, sps)" and
    cv: "convert_polygons L offset sps = Inr polygons"
    by blast
  from path_polygons_Inr[OF extract_shapely_polygons_Inr(2)[OF es]]
  have a: "list_all2 (\<lambda>e bh. \<exists>d hs. discretize_path (first_subpath (el_path e)) tolerance = Inr d \<and>
                   hole_polygons L tolerance (rest_subpaths (el_path e)) = Inr hs \<and>
                   bh = (simplify L (dilate L d (1.5 * tolerance)) tolerance, hs)) elements sps"
    by (simp add: list_all2_map1)
  note b = convert_polygons_Inr[OF cv]
  show ?thesis
    unfolding list_all2_conv_all_nth
  proof (intro conjI allI impI)
    from a b show "length elements = length polygons"
      by (simp add: list_all2_lengthD)
  next
    fix i assume i: "i < length elements"
    from a i obtain d hs where
      d: "discretize_path (first_subpath (el_path (elements ! i))) tolerance = Inr d" and
      hs: "hole_polygons L tolerance (rest_subpaths (el_path (elements ! i))) = Inr hs" and
      bh: "sps ! i = (simplify L (dilate L d (1.5 * tolerance)) tolerance, hs)"
      by (auto simp: list_all2_conv_all_nth)
    from a i have "i < length sps" by (simp add: list_all2_lengthD)
    with b bh obtain cs where
      "exterior_coords
         (dilate L (simplify L (dilate L d (1.5 * tolerance)) tolerance) offset) = Inr cs"
      "boundary (polygons ! i) = ring_points cs" "holes (polygons ! i) = add_holes hs"
      by (auto simp: list_all2_conv_all_nth)
    with d hs show "\<exists>d hs cs.
           discretize_path (first_subpath (el_path (elements ! i))) tolerance = Inr d \<and>
           hole_polygons L tolerance (rest_subpaths (el_path (elements ! i))) = Inr hs \<and>
           exterior_coords
             (dilate L (simplify L (dilate L d (1.5 * tolerance)) tolerance) offset) = Inr cs \<and>
           boundary (polygons ! i) = ring_points cs \<and> holes (polygons ! i) = add_holes hs"
      by blast
  qed
qed

lemma extract_polygons_elements_offset:
  assumes "extract_polygons L doc tolerance offset = Inr (elements, polygons)"
    and "extract_polygons L doc tolerance offset' = Inr (elements', polygons')"
  shows "elements' = elements"
  using extract_polygons_Inr[OF assms(1)] extract_polygons_Inr[OF assms(2)] by auto

section \<open>Hole subpaths and the sheets\<close>

lemma closed_tolerance_pos: "is_closed_subpath p tolerance \<Longrightarrow> 0 < tolerance"
proof -
  assume "is_closed_subpath p tolerance"
  then have "distance_to (sp_point p 0) (sp_point p 1) < tolerance"
    by (simp add: is_closed_subpath_def)
  moreover have "0 \<le> distance_to (sp_point p 0) (sp_point p 1)"
    by (simp add: distance_to_def)
  ultimately show ?thesis by linarith
qed

lemma hole_polygons_total: "\<exists>hs. hole_polygons L tolerance ps = Inr hs"
proof (induction ps)
  case Nil
  then show ?case by simp
next
  case (Cons p ps)
  then obtain hs where hs: "hole_polygons L tolerance ps = Inr hs" by blast
  show ?case
  proof (cases "is_closed_subpath p tolerance")
    case True
    then have "tolerance \<noteq> 0" using closed_tolerance_pos by fastforce
    then obtain d where "discretize_path p tolerance = Inr d"
      by (simp add: discretize_path_def Let_def)
    with True hs show ?thesis by simp
  next
    case False
    with hs show ?thesis by simp
  qed
qed

lemma path_polygon_boundary:
  "map_sum id fst (path_polygon L tolerance p) =
     map_sum id (\<lambda>d. simplify L (dilate L d (1.5 * tolerance)) tolerance)
       (discretize_path (first_subpath p) tolerance)"
proof -
  obtain hs where "hole_polygons L tolerance (rest_subpaths p) = Inr hs"
    using hole_polygons_total by blast
  then show ?thesis
    by (simp add: path_polygon_def Let_def split: sum.splits)
qed

lemma path_polygons_boundary:
  "map first_subpath ps = map first_subpath qs \<Longrightarrow>
     map_sum id (map fst) (path_polygons L tolerance ps) =
     map_sum id (map fst) (path_polygons L tolerance qs)"
proof (induction ps arbitrary: qs)
  case Nil
  then show ?case by simp
next
  case (Cons p ps)
  then obtain q qs' where qs: "qs = q # qs'" and fp: "first_subpath p = first_subpath q"
    and rest: "map first_subpath ps = map first_subpath qs'"
    by (cases qs) auto
  have hd_eq: "map_sum id fst (path_polygon L tolerance p) =
      map_sum id fst (path_polygon L tolerance q)"
    by (simp add: path_polygon_boundary fp)
  note tl_eq = Cons.IH[OF rest]
  show ?case
  proof (cases "path_polygon L tolerance p")
    case (Inl err)
    with hd_eq have "path_polygon L tolerance q = Inl err"
      by (cases "path_polygon L tolerance q") auto
    with Inl qs show ?thesis by simp
  next
    case (Inr bh)
    with hd_eq obtain bh' where q: "path_polygon L tolerance q = Inr bh'" and f: "fst bh' = fst bh"
      by (cases "path_polygon L tolerance q") auto
    show ?thesis
    proof (cases "path_polygons L tolerance ps")
      case (Inl err)
      with tl_eq have "path_polygons L tolerance qs' = Inl err"
        by (cases "path_polygons L tolerance qs'") auto
      with Inl Inr q qs show ?thesis by simp
    next
      case r: (Inr rest_ps)
      with tl_eq obtain rest_qs where "path_polygons L tolerance qs' = Inr rest_qs"
        and "map fst rest_qs = map fst rest_ps"
        by (cases "path_polygons L tolerance qs'") auto
      with r Inr q qs f show ?thesis by simp
    qed
  qed
qed

lemma convert_polygons_boundary:
  "map fst sps = map fst sps' \<Longrightarrow>
     map_sum id (map boundary) (convert_polygons L offset sps) =
     map_sum id (map boundary) (convert_polygons L offset sps')"
proof (induction sps arbitrary: sps')
  case Nil
  then show ?case by simp
next
  case (Cons bh sps)
  then obtain bh' rest' where s: "sps' = bh' # rest'" and f: "fst bh = fst bh'"
    and rest: "map fst sps = map fst rest'"
    by (cases sps') auto
  obtain b hs where bh: "bh = (b, hs)" by (cases bh)
  with f obtain hs' where bh': "bh' = (b, hs')" by (cases bh') auto
  note tl_eq = Cons.IH[OF rest]
  show ?case
  proof (cases "exterior_coords (dilate L b offset)")
    case (Inl err)
    with bh bh' s show ?thesis by simp
  next
    case (Inr cs)
    show ?thesis
    proof (cases "convert_polygons L offset sps")
      case (Inl err)
      with tl_eq have "convert_polygons L offset rest' = Inl err"
        by (cases "convert_polygons L offset rest'") auto
      with Inl Inr bh bh' s show ?thesis by simp
    next
      case r: (Inr polys)
      with tl_eq obtain polys' where "convert_polygons L offset rest' = Inr polys'"
        and "map boundary polys' = map boundary polys"
        by (cases "convert_polygons L offset rest'") auto
      with r Inr bh bh' s show ?thesis by simp
    qed
  qed
qed

lemma gather_paths_replace:
  fixes f :: "svg_element \<Rightarrow> subpath list"
  defines "r \<equiv> \<lambda>e. e\<lparr>el_path := (el_path e)\<lparr>rest_subpaths := f e\<rparr>\<rparr>"
  shows "gather_paths tolerance (map r es) =
           map_sum id (\<lambda>ep. (map r (fst ep), map (\<lambda>e. el_path (r e)) (fst ep)))
             (gather_paths tolerance es)"
proof (induction es)
  case Nil
  then show ?case by simp
next
  case (Cons e es)
  have h: "is_hidden (r e) = is_hidden e"
    by (simp add: r_def is_hidden_def)
  have k: "is_retained (r e) tolerance = is_retained e tolerance"
    by (cases "kind e") (simp_all add: r_def is_retained_def is_closed_def get_boundary_def)
  show ?case
    using Cons.IH
    by (simp add: h k split: sum.splits bool.splits prod.splits)
qed

lemma extract_polygons_replace:
  "map_sum id (\<lambda>r. map boundary (snd r)) (extract_polygons L (replace_holes f doc) tolerance offset) =
   map_sum id (\<lambda>r. map boundary (snd r)) (extract_polygons L doc tolerance offset)"
proof -
  let ?r = "\<lambda>e. e\<lparr>el_path := (el_path e)\<lparr>rest_subpaths := f e\<rparr>\<rparr>"
  have dims: "get_sheet_dimensions (replace_holes f doc) = get_sheet_dimensions doc"
    by (simp add: get_sheet_dimensions_def replace_holes_def)
  have els: "doc_elements (replace_holes f doc) = map ?r (doc_elements doc)"
    by (simp add: replace_holes_def)
  show ?thesis
  proof (cases "get_sheet_dimensions doc")
    case (Inl err)
    then show ?thesis
      by (simp add: extract_polygons_def extract_shapely_polygons_def dims)
  next
    case dim: (Inr hw)
    show ?thesis
    proof (cases "gather_paths tolerance (doc_elements doc)")
      case (Inl err)
      then have "gather_paths tolerance (map ?r (doc_elements doc)) = Inl err"
        by (simp add: gather_paths_replace)
      with Inl dim show ?thesis
        by (simp add: extract_polygons_def extract_shapely_polygons_def dims els)
    next
      case (Inr ep)
      obtain elements paths where ep: "ep = (elements, paths)" by (cases ep)
      from Inr ep gather_paths_Inr have paths: "paths = map el_path elements" by blast
      from Inr ep have g': "gather_paths tolerance (map ?r (doc_elements doc)) =
          Inr (map ?r elements, map (\<lambda>e. el_path (?r e)) elements)"
        by (simp add: gather_paths_replace)
      have "map first_subpath (map (\<lambda>e. el_path (?r e)) elements) = map first_subpath paths"
        by (simp add: paths)
      note pp = path_polygons_boundary[OF this, of L tolerance]
      show ?thesis
      proof (cases "path_polygons L tolerance paths")
        case (Inl err)
        with pp have "path_polygons L tolerance (map (\<lambda>e. el_path (?r e)) elements) = Inl err"
          by (cases "path_polygons L tolerance (map (\<lambda>e. el_path (?r e)) elements)") auto
        with Inl Inr ep g' dim show ?thesis
          by (simp add: extract_polygons_def extract_shapely_polygons_def dims els)
      next
        case sps: (Inr sps)
        with pp obtain sps' where
          sps': "path_polygons L tolerance (map (\<lambda>e. el_path (?r e)) elements) = Inr sps'"
          and fst_eq: "map fst sps' = map fst sps"
          by (cases "path_polygons L tolerance (map (\<lambda>e. el_path (?r e)) elements)") auto
        from path_polygons_length[OF sps] paths have l: "length sps = length elements" by simp
        from path_polygons_length[OF sps'] have l': "length sps' = length elements" by simp
        note cv = convert_polygons_boundary[OF fst_eq, of L offset]
        have a: "extract_polygons L doc tolerance offset =
            map_sum id (\<lambda>ps. (elements, ps)) (convert_polygons L offset sps)"
          using Inr ep sps l dim
          by (simp add: extract_polygons_def extract_shapely_polygons_def split: sum.splits)
        have b: "extract_polygons L (replace_holes f doc) tolerance offset =
            map_sum id (\<lambda>ps. (map ?r elements, ps)) (convert_polygons L offset sps')"
          using g' sps' l' dim
          by (simp add: extract_polygons_def extract_shapely_polygons_def dims els
                split: sum.splits)
        show ?thesis
          using cv by (simp add: a b sum.map_comp comp_def id_def)
      qed
    qed
  qed
qed

lemma make_sheets_Cons:
  "make_sheets L N (svg_string # svgs) tolerance offset state =
     (case map_sum id (\<lambda>r. map boundary (snd r))
             (extract_polygons L svg_string tolerance offset) of
        Inl err \<Rightarrow> (Inl err, state)
      | Inr bs \<Rightarrow>
          (case get_sheet_dimensions svg_string of
             Inl err \<Rightarrow> (Inl err, state)
           | Inr (h, w) \<Rightarrow>
               (case sheet_add_holes N \<lparr>height = h, width = w, sheet_holes = []\<rparr> bs state of
                  (sheet, state') \<Rightarrow>
                    (case make_sheets L N svgs tolerance offset state' of
                       (Inl err, state'') \<Rightarrow> (Inl err, state'')
                     | (Inr sheets, state'') \<Rightarrow> (Inr (sheet # sheets), state'')))))"
  by (cases "extract_polygons L svg_string tolerance offset";
      cases "get_sheet_dimensions svg_string")
     (auto split: prod.splits)

lemma make_sheets_replace:
  "make_sheets L N (map (replace_holes f) sheet_svgs) tolerance offset state =
     make_sheets L N sheet_svgs tolerance offset state"
proof (induction sheet_svgs arbitrary: state)
  case Nil
  then show ?case by simp
next
  case (Cons svg svgs)
  have dims: "get_sheet_dimensions (replace_holes f svg) = get_sheet_dimensions svg"
    by (simp add: get_sheet_dimensions_def replace_holes_def)
  show ?case
    by (simp only: list.map make_sheets_Cons extract_polygons_replace dims Cons.IH)
qed

lemma emit_sheets_viewBox:
  "map viewBox svgs' = map viewBox svgs \<Longrightarrow>
     emit_sheets svgs' elements polygons i po = emit_sheets svgs elements polygons i po"
proof (induction po arbitrary: i)
  case Nil
  then show ?case by simp
next
  case (Cons ps po)
  from Cons.prems have l: "length svgs' = length svgs"
    using map_eq_imp_length_eq by blast
  have "i < length svgs \<Longrightarrow> viewBox (svgs' ! i) = viewBox (svgs ! i)"
    using Cons.prems l by (metis nth_map)
  with Cons.IH[OF Cons.prems] l show ?case
    by (simp split: sum.splits)
qed

lemma pack_replace_holes:
  "pack L N h (map (replace_holes f) sheet_svgs) shapes offset tolerance partial_solution
       rotations persist custom_state =
     pack L N h sheet_svgs shapes offset tolerance partial_solution rotations persist custom_state"
proof -
  have v: "map viewBox (map (replace_holes f) sheet_svgs) = map viewBox sheet_svgs"
    by (simp add: replace_holes_def)
  have run: "\<And>st. pack_run L N st (map (replace_holes f) sheet_svgs) shapes offset tolerance
        partial_solution rotations =
      pack_run L N st sheet_svgs shapes offset tolerance partial_solution rotations"
    unfolding pack_run_def make_sheets_replace by (rule refl)
  have out: "\<And>elements polygons po. pack_output (map (replace_holes f) sheet_svgs) elements polygons po
        partial_solution =
      pack_output sheet_svgs elements polygons po partial_solution"
    unfolding pack_output_def emit_sheets_viewBox[OF v] by (rule refl)
  show ?thesis
    unfolding pack_def pack_body_def run out by (rule refl)
qed

lemma ring_not_hidden: "is_hidden ring_element = Inr False"
  by (simp add: is_hidden_def ring_element_def)

lemma ring_retained: "is_retained ring_element 10"
  by (simp add: is_retained_def ring_element_def is_closed_def get_boundary_def rect_closed)

lemma ring_polygon:
  "path_polygon box_lib 10 (el_path ring_element) =
     Inr (SPolygon [(-15,-15), (75,-15), (75,75), (-15,75), (-15,-15)],
          [SPolygon [(25,25), (35,25), (35,35), (25,35), (25,25)]])"
proof -
  from ring_boundary obtain cs where
    b: "discretize_path (rect_subpath 0 0 60 60) 10 = Inr (SPolygon cs)"
       "dilate box_lib (SPolygon cs) 15 =
          SPolygon [(-15,-15), (75,-15), (75,75), (-15,75), (-15,-15)]"
    by blast
  from ring_hole obtain hs where
    h: "discretize_path (rect_subpath 10 10 40 40) 10 = Inr (SPolygon hs)"
       "erode box_lib (SPolygon hs) 15 = SPolygon [(25,25), (35,25), (35,35), (25,35), (25,25)]"
    by blast
  have s: "\<And>g t. simplify box_lib g t = g"
    by (simp add: box_lib_def)
  show ?thesis
    by (simp add: path_polygon_def ring_element_def rect_closed b h s)
qed

lemma extract_shapely_ring:
  "extract_shapely_polygons box_lib ring_doc 10 =
     Inr ([ring_element],
          [(SPolygon [(-15,-15), (75,-15), (75,75), (-15,75), (-15,-15)],
            [SPolygon [(25,25), (35,25), (35,35), (25,35), (25,25)]])])"
  by (simp add: extract_shapely_polygons_def get_sheet_dimensions_def ring_doc_def
        ring_not_hidden ring_retained ring_polygon)

lemma extract_ring_5:
  "extract_polygons box_lib ring_doc 10 5 =
     Inr ([ring_element],
          [\<lparr>boundary = [(-20,-20), (80,-20), (80,80), (-20,80)],
            holes = [[(25,25), (35,25), (35,35), (25,35)]]\<rparr>])"
  by (simp add: extract_polygons_def extract_shapely_ring)
     (simp add: exterior_coords_def ring_points_def is_empty_def box_lib_def dilate_def
        box_buffer_def)

lemma extract_ring_8:
  "extract_polygons box_lib ring_doc 10 8 =
     Inr ([ring_element],
          [\<lparr>boundary = [(-23,-23), (83,-23), (83,83), (-23,83)],
            holes = [[(25,25), (35,25), (35,35), (25,35)]]\<rparr>])"
  by (simp add: extract_polygons_def extract_shapely_ring)
     (simp add: exterior_coords_def ring_points_def is_empty_def box_lib_def dilate_def
        box_buffer_def)

section \<open>The cache of the modelled engine\<close>



















section \<open>The modelled engine on the rectangle example\<close>











lemma extract_sheet_with_square:
  "extract_polygons box_lib sheet_with_square 10 5 =
     Inr ([rect_element Map.empty 0 0 10 10], [dilated_square])"
proof -
  have "is_hidden (rect_element Map.empty 0 0 10 10) = Inr False"
    by (simp add: is_hidden_def rect_element_def)
  then have "extract_shapely_polygons box_lib sheet_with_square 10 =
      Inr ([rect_element Map.empty 0 0 10 10],
           [(SPolygon [(-15,-15), (25,-15), (25,25), (-15,25), (-15,-15)], [])])"
    by (simp add: extract_shapely_polygons_def get_sheet_dimensions_def sheet_with_square_def
          rect_retained square_polygon)
  then show ?thesis
    by (simp add: extract_polygons_def dilate_box exterior_coords_def ring_points_def
          dilated_square_def)
qed





section \<open>The placements and the output documents\<close>

lemma place_shape_index:
  "place_shape elements polygons p = Inr shape \<Longrightarrow>
     - int (length polygons) \<le> polygon_id p \<and> polygon_id p < int (length polygons)"
  by (auto simp: place_shape_def py_index_def Let_def split: sum.splits if_splits)

lemma place_all_Inr:
  "place_all elements polygons ps = Inr shapes \<Longrightarrow>
     length shapes = length ps \<and>
     (\<forall>p \<in> set ps. - int (length polygons) \<le> polygon_id p \<and>
                      polygon_id p < int (length polygons))"
proof (induction ps arbitrary: shapes)
  case Nil
  then show ?case by simp
next
  case (Cons p ps)
  from Cons.prems obtain shape rest where
    s: "place_shape elements polygons p = Inr shape" and
    r: "place_all elements polygons ps = Inr rest" and
    e: "shapes = shape # rest"
    by (auto split: sum.splits)
  from Cons.IH[OF r] place_shape_index[OF s] e show ?case by simp
qed

lemma upt_add_Suc: "[i..<i + Suc n] = i # [Suc i..<Suc i + n]"
  by (simp add: upt_conv_Cons)

lemma emit_sheets_Inr:
  "emit_sheets sheet_svgs elements polygons i po = Inr outputs \<Longrightarrow>
     map (\<lambda>out. length (out_shapes (snd out))) outputs = map length po \<and>
     map fst outputs = [i..<i + length po] \<and>
     (\<forall>p \<in> set (concat po). - int (length polygons) \<le> polygon_id p \<and>
                               polygon_id p < int (length polygons))"
proof (induction po arbitrary: i outputs)
  case Nil
  then show ?case by simp
next
  case (Cons ps po)
  from Cons.prems obtain shapes rest where
    s: "place_all elements polygons ps = Inr shapes" and
    r: "emit_sheets sheet_svgs elements polygons (Suc i) po = Inr rest" and
    e: "outputs = (i, \<lparr>out_viewBox = viewBox (sheet_svgs ! i), out_shapes = shapes\<rparr>) # rest"
    by (auto split: sum.splits if_splits)
  have u: "[i..<i + length (ps # po)] = i # [Suc i..<Suc i + length po]"
    using upt_add_Suc[of i "length po"] by simp
  from Cons.IH[OF r] place_all_Inr[OF s] e show ?case
    unfolding u by auto
qed

lemma distinct_indices_cover:
  fixes xs :: "int list"
  assumes "distinct xs" "length xs = n" "\<forall>x \<in> set xs. 0 \<le> x \<and> x < int n"
  shows "set xs = int ` {0..<n}"
proof -
  have sub: "set xs \<subseteq> int ` {0..<n}"
  proof
    fix x assume "x \<in> set xs"
    with assms(3) have "0 \<le> x" "x < int n" by auto
    then have "x = int (nat x)" "nat x < n" by auto
    then show "x \<in> int ` {0..<n}" by (metis atLeastLessThan_iff image_eqI le0)
  qed
  have "card (set xs) = n" using assms(1,2) by (simp add: distinct_card)
  moreover have "card (int ` {0..<n}) = n" by (simp add: card_image)
  ultimately show ?thesis using sub by (simp add: card_subset_eq)
qed

lemma extract_two_squares:
  "extract_polygons box_lib two_squares 10 5 =
     Inr ([rect_element Map.empty 0 0 10 10, rect_element Map.empty 0 0 10 10],
          [dilated_square, dilated_square])"
proof -
  have "is_hidden (rect_element Map.empty 0 0 10 10) = Inr False"
    by (simp add: is_hidden_def rect_element_def)
  then have "extract_shapely_polygons box_lib two_squares 10 =
      Inr ([rect_element Map.empty 0 0 10 10, rect_element Map.empty 0 0 10 10],
           [(SPolygon [(-15,-15), (25,-15), (25,25), (-15,25), (-15,-15)], []),
            (SPolygon [(-15,-15), (25,-15), (25,25), (-15,25), (-15,-15)], [])])"
    by (simp add: extract_shapely_polygons_def get_sheet_dimensions_def two_squares_def
          rect_retained square_polygon)
  then show ?thesis
    by (simp add: extract_polygons_def dilate_box exterior_coords_def ring_points_def
          dilated_square_def)
qed

lemma make_sheets_blank_prefix:
  "make_sheets box_lib (prefix_native k) [blank_sheet 100 100] 10 5 st =
     (Inr [\<lparr>height = 100, width = 100, sheet_holes = []\<rparr>], st)"
  by (simp add: extract_blank_sheet)
     (simp add: get_sheet_dimensions_def blank_sheet_def prefix_native_def row_native_def)

lemma upt_2: "[0..<2] = [0, 1::nat]"
  by (simp add: upt_conv_Cons eval_nat_numeral)

lemma prefix_pack_decreasing:
  "pack_decreasing (prefix_native k) (s # ss) [dilated_square, dilated_square] st
       partial_solution rotations =
     ([map (\<lambda>i. \<lparr>polygon_id = int i,
                  transform = \<lparr>translate = (-20,-20), rotate_angle = 0\<rparr>\<rparr>)
         [0..<min k 2]], st + min k 2)"
  by (auto simp: prefix_native_def dilated_square_def nth_Cons numeral_2_eq_2
        split: nat.splits)

lemma pack_run_two_squares:
  "pack_run box_lib (prefix_native k) st [blank_sheet 100 100] two_squares 5 10
       partial_solution 1 =
     (Inr ([rect_element Map.empty 0 0 10 10, rect_element Map.empty 0 0 10 10],
           [dilated_square, dilated_square],
           [map (\<lambda>i. \<lparr>polygon_id = int i,
                       transform = \<lparr>translate = (-20,-20), rotate_angle = 0\<rparr>\<rparr>)
              [0..<min k 2]]),
      st + min k 2)"
  by (simp add: pack_run_def extract_two_squares make_sheets_blank_prefix
        prefix_pack_decreasing del: make_sheets.simps)

lemma place_two_squares:
  "i = 0 \<or> i = 1 \<Longrightarrow>
   place_shape [rect_element Map.empty 0 0 10 10, rect_element Map.empty 0 0 10 10]
       [dilated_square, dilated_square]
       \<lparr>polygon_id = i, transform = \<lparr>translate = (-20,-20), rotate_angle = 0\<rparr>\<rparr> =
     Inr placed_square"
  by (auto simp: place_shape_def py_index_def flatten_shape_def rect_element_def
        placed_square_def dilated_square_def)

lemma pack_body_two_squares_all:
  "pack_body box_lib (prefix_native 2) st [blank_sheet 100 100] two_squares 5 10
       partial_solution 1 =
     (Inr ([(0, \<lparr>out_viewBox = [0, 0, 100, 100],
                 out_shapes = [placed_square, placed_square]\<rparr>)], 2, 0), st + 2)"
  by (simp add: pack_body_def pack_run_two_squares upt_2)
     (simp add: pack_output_def place_two_squares blank_sheet_def)

lemma pack_body_two_squares_none:
  "pack_body box_lib (prefix_native 0) st [blank_sheet 100 100] two_squares 5 10
       partial_solution 1 =
     (Inr ([(0, \<lparr>out_viewBox = [0, 0, 100, 100], out_shapes = []\<rparr>)], 0, 2), st)"
  by (simp add: pack_body_def pack_run_two_squares)
     (simp add: pack_output_def blank_sheet_def)

lemma pack_body_two_squares_one:
  "pack_body box_lib (prefix_native (Suc 0)) st [blank_sheet 100 100] two_squares 5 10
       partial_solution 1 =
     (if partial_solution
      then Inr ([(0, \<lparr>out_viewBox = [0, 0, 100, 100], out_shapes = [placed_square]\<rparr>)], 1, 1)
      else Inl AssertionError, st + 1)"
  by (simp add: pack_body_def pack_run_two_squares)
     (simp add: pack_output_def place_two_squares blank_sheet_def)

lemma packing_output_two_squares:
  "packing_output_of box_lib (prefix_native k) h [blank_sheet 100 100] two_squares 5 10
       partial_solution 1 persist custom_state =
     [map (\<lambda>i. \<lparr>polygon_id = int i,
                 transform = \<lparr>translate = (-20,-20), rotate_angle = 0\<rparr>\<rparr>) [0..<min k 2]]"
  by (simp add: packing_output_of_def case_prod_beta pack_run_two_squares)

section \<open>The sheets of a list\<close>

lemma make_sheets_Inr:
  "make_sheets L N sheet_svgs tolerance offset state = (Inr sheets, state') \<Longrightarrow>
     \<exists>calls.
       list_all2 (\<lambda>svg c. \<exists>elements hs.
           extract_polygons L svg tolerance offset = Inr (elements, hs) \<and>
           get_sheet_dimensions svg = Inr (fst c, fst (snd c)) \<and>
           snd (snd c) = map boundary hs) sheet_svgs calls \<and>
       add_sheets N calls state = (sheets, state')"
proof (induction sheet_svgs arbitrary: state sheets)
  case Nil
  then have "add_sheets N [] state = (sheets, state')" by simp
  then show ?case by blast
next
  case (Cons svg svgs)
  from Cons.prems obtain elements hs where
    e: "extract_polygons L svg tolerance offset = Inr (elements, hs)"
    by (cases "extract_polygons L svg tolerance offset") auto
  from Cons.prems e obtain ht wd where
    d: "get_sheet_dimensions svg = Inr (ht, wd)"
    by (cases "get_sheet_dimensions svg") auto
  obtain sheet st1 where
    s: "sheet_add_holes N \<lparr>height = ht, width = wd, sheet_holes = []\<rparr> (map boundary hs) state =
          (sheet, st1)"
    by (cases "sheet_add_holes N \<lparr>height = ht, width = wd, sheet_holes = []\<rparr>
                 (map boundary hs) state") blast
  from Cons.prems e d s obtain rest where
    r: "make_sheets L N svgs tolerance offset st1 = (Inr rest, state')" and
    sh: "sheets = sheet # rest"
    by (cases "make_sheets L N svgs tolerance offset st1";
        cases "fst (make_sheets L N svgs tolerance offset st1)") auto
  from Cons.IH[OF r] obtain calls where
    c: "list_all2 (\<lambda>svg c. \<exists>elements hs.
           extract_polygons L svg tolerance offset = Inr (elements, hs) \<and>
           get_sheet_dimensions svg = Inr (fst c, fst (snd c)) \<and>
           snd (snd c) = map boundary hs) svgs calls" and
    a: "add_sheets N calls st1 = (rest, state')"
    by blast
  have "list_all2 (\<lambda>svg c. \<exists>elements hs.
           extract_polygons L svg tolerance offset = Inr (elements, hs) \<and>
           get_sheet_dimensions svg = Inr (fst c, fst (snd c)) \<and>
           snd (snd c) = map boundary hs) (svg # svgs) ((ht, wd, map boundary hs) # calls)"
    using c e d by simp
  moreover have "add_sheets N ((ht, wd, map boundary hs) # calls) state = (sheets, state')"
    using s a sh by simp
  ultimately show ?case by blast
qed

lemma extract_polygons_outer:
  assumes "extract_polygons L svg tolerance offset = Inr (elements, hs)"
  shows "list_all2 (\<lambda>e b. \<exists>d cs.
           discretize_path (first_subpath (el_path e)) tolerance = Inr d \<and>
           exterior_coords
             (dilate L (simplify L (dilate L d (1.5 * tolerance)) tolerance) offset) = Inr cs \<and>
           b = ring_points cs) elements (map boundary hs)"
proof -
  from assms have "list_all2 (\<lambda>e p. \<exists>d hs cs.
           discretize_path (first_subpath (el_path e)) tolerance = Inr d \<and>
           hole_polygons L tolerance (rest_subpaths (el_path e)) = Inr hs \<and>
           exterior_coords
             (dilate L (simplify L (dilate L d (1.5 * tolerance)) tolerance) offset) = Inr cs \<and>
           boundary p = ring_points cs \<and> holes p = add_holes hs) elements hs"
    using extract_polygons_pipeline by blast
  then show ?thesis
    unfolding list_all2_map2 by (rule list_all2_mono) blast
qed

lemma make_sheets_calls:
  assumes "make_sheets L N sheet_svgs tolerance offset state = (Inr sheets, state')"
  shows "\<exists>calls.
       list_all2 (\<lambda>svg c. \<exists>elements hs.
           extract_polygons L svg tolerance offset = Inr (elements, hs) \<and>
           get_sheet_dimensions svg = Inr (fst c, fst (snd c)) \<and>
           snd (snd c) = map boundary hs \<and>
           list_all2 (\<lambda>e b. \<exists>d cs.
               discretize_path (first_subpath (el_path e)) tolerance = Inr d \<and>
               exterior_coords
                 (dilate L (simplify L (dilate L d (1.5 * tolerance)) tolerance) offset) =
                   Inr cs \<and>
               b = ring_points cs) elements (snd (snd c))) sheet_svgs calls \<and>
       add_sheets N calls state = (sheets, state')"
proof -
  from make_sheets_Inr[OF assms] obtain calls where
    c: "list_all2 (\<lambda>svg c. \<exists>elements hs.
           extract_polygons L svg tolerance offset = Inr (elements, hs) \<and>
           get_sheet_dimensions svg = Inr (fst c, fst (snd c)) \<and>
           snd (snd c) = map boundary hs) sheet_svgs calls" and
    a: "add_sheets N calls state = (sheets, state')"
    by blast
  have "list_all2 (\<lambda>svg c. \<exists>elements hs.
           extract_polygons L svg tolerance offset = Inr (elements, hs) \<and>
           get_sheet_dimensions svg = Inr (fst c, fst (snd c)) \<and>
           snd (snd c) = map boundary hs \<and>
           list_all2 (\<lambda>e b. \<exists>d cs.
               discretize_path (first_subpath (el_path e)) tolerance = Inr d \<and>
               exterior_coords
                 (dilate L (simplify L (dilate L d (1.5 * tolerance)) tolerance) offset) =
                   Inr cs \<and>
               b = ring_points cs) elements (snd (snd c))) sheet_svgs calls"
    using c
  proof (rule list_all2_mono)
    fix svg c
    assume "\<exists>elements hs.
           extract_polygons L svg tolerance offset = Inr (elements, hs) \<and>
           get_sheet_dimensions svg = Inr (fst c, fst (snd c)) \<and>
           snd (snd c) = map boundary hs"
    then obtain elements hs where
      e: "extract_polygons L svg tolerance offset = Inr (elements, hs)" and
      d: "get_sheet_dimensions svg = Inr (fst c, fst (snd c))" and
      b: "snd (snd c) = map boundary hs"
      by blast
    from extract_polygons_outer[OF e] b have "list_all2 (\<lambda>e b. \<exists>d cs.
               discretize_path (first_subpath (el_path e)) tolerance = Inr d \<and>
               exterior_coords
                 (dilate L (simplify L (dilate L d (1.5 * tolerance)) tolerance) offset) =
                   Inr cs \<and>
               b = ring_points cs) elements (snd (snd c))"
      by simp
    with e d b show "\<exists>elements hs.
           extract_polygons L svg tolerance offset = Inr (elements, hs) \<and>
           get_sheet_dimensions svg = Inr (fst c, fst (snd c)) \<and>
           snd (snd c) = map boundary hs \<and>
           list_all2 (\<lambda>e b. \<exists>d cs.
               discretize_path (first_subpath (el_path e)) tolerance = Inr d \<and>
               exterior_coords
                 (dilate L (simplify L (dilate L d (1.5 * tolerance)) tolerance) offset) =
                   Inr cs \<and>
               b = ring_points cs) elements (snd (snd c))"
      by blast
  qed
  with a show ?thesis by blast
qed

lemma pack_run_sheets:
  assumes "fst (pack_run L N st sheet_svgs shapes offset tolerance partial_solution rotations) =
             Inr (elements, polygons, po)"
  shows "\<exists>sheets st1.
           extract_polygons L shapes tolerance offset = Inr (elements, polygons) \<and>
           make_sheets L N sheet_svgs tolerance offset st = (Inr sheets, st1) \<and>
           po = fst (pack_decreasing N sheets polygons st1 partial_solution rotations)"
  using assms
  by (auto simp: pack_run_def split: sum.splits if_splits prod.splits)

lemma pack_sheets:
  assumes "fst (pack L N h sheet_svgs shapes offset tolerance partial_solution rotations persist
                  custom_state) = Inr result"
  shows "\<exists>elements polygons sheets state1.
           extract_polygons L shapes tolerance offset = Inr (elements, polygons) \<and>
           make_sheets L N sheet_svgs tolerance offset
               (objs (snd (select_state N h persist custom_state))
                     (fst (select_state N h persist custom_state))) = (Inr sheets, state1) \<and>
           packing_output_of L N h sheet_svgs shapes offset tolerance partial_solution rotations
               persist custom_state =
             fst (pack_decreasing N sheets polygons state1 partial_solution rotations)"
proof -
  let ?st = "objs (snd (select_state N h persist custom_state))
               (fst (select_state N h persist custom_state))"
  from assms have "fst (pack_body L N ?st sheet_svgs shapes offset tolerance partial_solution rotations) =
      Inr result"
    by (simp add: pack_fst)
  from pack_body_Inr[OF this] obtain elements polygons po where
    run: "fst (pack_run L N ?st sheet_svgs shapes offset tolerance partial_solution rotations) =
             Inr (elements, polygons, po)"
    by blast
  have "packing_output_of L N h sheet_svgs shapes offset tolerance partial_solution rotations
          persist custom_state = po"
    using run by (simp add: packing_output_of_def case_prod_beta)
  with pack_run_sheets[OF run] show ?thesis by blast
qed

lemma make_sheets_square_row:
  "make_sheets box_lib row_native [sheet_with_square] 10 5 st =
     (Inr [\<lparr>height = 200, width = 200,
            sheet_holes = [\<lparr>boundary = [(-20,-20), (30,-20), (30,30), (-20,30)],
                            holes = []\<rparr>]\<rparr>], st + 1)"
  by (simp add: extract_sheet_with_square)
     (simp add: get_sheet_dimensions_def sheet_with_square_def row_native_def
        dilated_square_def)

lemma make_sheets_ring_square:
  "make_sheets box_lib row_native [ring_doc, sheet_with_square] 10 5 0 =
     (Inr [\<lparr>height = 100, width = 100,
            sheet_holes = [\<lparr>boundary = [(-20,-20), (80,-20), (80,80), (-20,80)],
                            holes = []\<rparr>]\<rparr>,
           \<lparr>height = 200, width = 200,
            sheet_holes = [\<lparr>boundary = [(-20,-20), (30,-20), (30,30), (-20,30)],
                            holes = []\<rparr>]\<rparr>], 2)"
proof -
  have d: "get_sheet_dimensions ring_doc = Inr (100, 100)"
    by (simp add: get_sheet_dimensions_def ring_doc_def)
  have a: "sheet_add_holes row_native = (\<lambda>sheet hs st.
      (sheet\<lparr>sheet_holes := map (\<lambda>b. \<lparr>boundary = b, holes = []\<rparr>) hs\<rparr>, st + length hs))"
    by (simp add: row_native_def)
  show ?thesis
    by (subst make_sheets.simps(2))
       (simp add: extract_ring_5 d a make_sheets_square_row del: make_sheets.simps)
qed

section \<open>The claims\<close>

text \<open>
  C7. Whenever \<open>pack\<close> returns, the two counts add up to the number of elements
  retained from the shapes document (the elements that are not skipped as hidden and
  are non-empty closed paths or shapes; dropped elements count in neither), both counts
  are non-negative, the placed count is the number of placements over all sheets, and
  no polygon id occurs in two placements.
\<close>

theorem pack_accounting:
  assumes "fst (pack L N h sheet_svgs shapes offset tolerance partial_solution rotations persist
                  custom_state) = Inr (outputs, placed, failed)"
  shows "placed + failed =
           int (length (filter (\<lambda>e. is_hidden e = Inr False \<and> is_retained e tolerance)
                          (doc_elements shapes))) \<and>
         0 \<le> placed \<and> 0 \<le> failed \<and>
         placed = int (length (concat (packing_output_of L N h sheet_svgs shapes offset tolerance
                                         partial_solution rotations persist custom_state))) \<and>
         distinct (map polygon_id
                     (concat (packing_output_of L N h sheet_svgs shapes offset tolerance
                                partial_solution rotations persist custom_state)))"
proof -
  from pack_Inr[OF assms] obtain elements polygons where
    els: "elements = filter (\<lambda>e. is_hidden e = Inr False \<and> is_retained e tolerance) (doc_elements shapes)"
    and len: "length polygons = length elements"
    and out: "pack_output sheet_svgs elements polygons
             (packing_output_of L N h sheet_svgs shapes offset tolerance partial_solution rotations
                persist custom_state) partial_solution = Inr (outputs, placed, failed)"
    by blast
  from pack_output_Inr(2-5)[OF out] els len show ?thesis by simp
qed

theorem pack_accounting_witness:
  "fst (pack box_lib row_native (initial_heap row_native) [blank_sheet 100 100] one_square 5 10
          True 1 True None) = Inr (one_square_outputs, 1, 0) \<and>
   (1::int) + 0 = int (length (filter (\<lambda>e. is_hidden e = Inr False \<and> is_retained e 10)
                                 (doc_elements one_square))) \<and>
   distinct (map polygon_id
               (concat (packing_output_of box_lib row_native (initial_heap row_native)
                          [blank_sheet 100 100] one_square 5 10 True 1 True None)))"
  using pack_accounting[OF pack_one_square[of "initial_heap row_native" True True None]]
    pack_one_square[of "initial_heap row_native" True True None]
  by simp

text \<open>
  C2. Whenever \<open>pack\<close> returns from a call with \<open>partial_solution = False\<close>, the
  placed count is the number of placements that \<open>pack_decreasing\<close> returned, output
  document \<open>i\<close> holds as many shapes as sheet \<open>i\<close> has placements, and either
  nothing failed and every retained polygon is placed (the placed count is the number
  of retained elements, no polygon id occurs twice and, the ids being indices from 0,
  they are all the indices of the retained polygons), or nothing is placed: the placed
  count is 0, every retained polygon failed, \<open>pack_decreasing\<close> returned no placement,
  and no output document holds a shape.
\<close>

theorem pack_all_or_nothing:
  assumes "fst (pack L N h sheet_svgs shapes offset tolerance False rotations persist
                  custom_state) = Inr (outputs, placed, failed)"
  shows "placed =
           int (length (concat (packing_output_of L N h sheet_svgs shapes offset tolerance False
                                  rotations persist custom_state))) \<and>
         map (\<lambda>out. length (out_shapes (snd out))) outputs =
           map length (packing_output_of L N h sheet_svgs shapes offset tolerance False rotations
                         persist custom_state) \<and>
         map fst outputs =
           [0..<length (packing_output_of L N h sheet_svgs shapes offset tolerance False
                          rotations persist custom_state)] \<and>
         ((failed = 0 \<and>
           placed = int (length (filter (\<lambda>e. is_hidden e = Inr False \<and> is_retained e tolerance)
                                   (doc_elements shapes))) \<and>
           distinct (map polygon_id
                       (concat (packing_output_of L N h sheet_svgs shapes offset tolerance False
                                  rotations persist custom_state))) \<and>
           ((\<forall>p \<in> set (concat (packing_output_of L N h sheet_svgs shapes offset tolerance False
                                    rotations persist custom_state)). 0 \<le> polygon_id p) \<longrightarrow>
              polygon_id ` set (concat (packing_output_of L N h sheet_svgs shapes offset
                                          tolerance False rotations persist custom_state)) =
                int ` {0..<length (filter (\<lambda>e. is_hidden e = Inr False \<and>
                                                is_retained e tolerance)
                                     (doc_elements shapes))})) \<or>
          (placed = 0 \<and>
           failed = int (length (filter (\<lambda>e. is_hidden e = Inr False \<and> is_retained e tolerance)
                                   (doc_elements shapes))) \<and>
           concat (packing_output_of L N h sheet_svgs shapes offset tolerance False rotations
                     persist custom_state) = [] \<and>
           list_all (\<lambda>out. out_shapes (snd out) = []) outputs))"
proof -
  let ?po = "packing_output_of L N h sheet_svgs shapes offset tolerance False rotations
               persist custom_state"
  let ?n = "length (filter (\<lambda>e. is_hidden e = Inr False \<and> is_retained e tolerance)
                      (doc_elements shapes))"
  from pack_Inr[OF assms] obtain elements polygons where
    els: "elements = filter (\<lambda>e. is_hidden e = Inr False \<and> is_retained e tolerance) (doc_elements shapes)"
    and len: "length polygons = length elements"
    and out: "pack_output sheet_svgs elements polygons ?po False = Inr (outputs, placed, failed)"
    by blast
  from els len have n: "length polygons = ?n" by simp
  note facts = pack_output_Inr[OF out]
  note em = emit_sheets_Inr[OF facts(1)]
  have common: "placed = int (length (concat ?po)) \<and>
      map (\<lambda>out. length (out_shapes (snd out))) outputs = map length ?po \<and>
      map fst outputs = [0..<length ?po]"
    using facts(3) em by simp
  from facts(6) consider "placed = 0" | "failed = 0" by auto
  then have "(failed = 0 \<and> placed = int ?n \<and> distinct (map polygon_id (concat ?po)) \<and>
           ((\<forall>p \<in> set (concat ?po). 0 \<le> polygon_id p) \<longrightarrow>
              polygon_id ` set (concat ?po) = int ` {0..<?n})) \<or>
          (placed = 0 \<and> failed = int ?n \<and> concat ?po = [] \<and>
           list_all (\<lambda>out. out_shapes (snd out) = []) outputs)"
  proof cases
    case 1
    with facts(3) have "concat ?po = []" by simp
    with emit_sheets_empty[OF facts(1)] 1 facts(4) n show ?thesis by simp
  next
    case 2
    with facts(4) n have p: "placed = int ?n" by simp
    with facts(3) have l: "length (map polygon_id (concat ?po)) = ?n" by simp
    have "(\<forall>p \<in> set (concat ?po). 0 \<le> polygon_id p) \<longrightarrow>
        polygon_id ` set (concat ?po) = int ` {0..<?n}"
    proof
      assume nn: "\<forall>p \<in> set (concat ?po). 0 \<le> polygon_id p"
      have "\<forall>x \<in> set (map polygon_id (concat ?po)). 0 \<le> x \<and> x < int ?n"
        using nn em n by auto
      from distinct_indices_cover[OF facts(2) l this]
      show "polygon_id ` set (concat ?po) = int ` {0..<?n}" by simp
    qed
    with 2 p facts(2) show ?thesis by blast
  qed
  with common show ?thesis by blast
qed

theorem pack_all_or_nothing_witness:
  "fst (pack box_lib (prefix_native 2) (initial_heap (prefix_native 2)) [blank_sheet 100 100]
          two_squares 5 10 False 1 False None) =
     Inr ([(0, \<lparr>out_viewBox = [0, 0, 100, 100],
                out_shapes = [placed_square, placed_square]\<rparr>)], 2, 0) \<and>
   packing_output_of box_lib (prefix_native 2) (initial_heap (prefix_native 2))
       [blank_sheet 100 100] two_squares 5 10 False 1 False None =
     [[\<lparr>polygon_id = 0, transform = \<lparr>translate = (-20,-20), rotate_angle = 0\<rparr>\<rparr>,
       \<lparr>polygon_id = 1, transform = \<lparr>translate = (-20,-20), rotate_angle = 0\<rparr>\<rparr>]] \<and>
   polygon_id ` set (concat (packing_output_of box_lib (prefix_native 2)
       (initial_heap (prefix_native 2)) [blank_sheet 100 100] two_squares 5 10 False 1
       False None)) = int ` {0..<2} \<and>
   fst (pack box_lib (prefix_native 0) (initial_heap (prefix_native 0)) [blank_sheet 100 100]
          two_squares 5 10 False 1 False None) =
     Inr ([(0, \<lparr>out_viewBox = [0, 0, 100, 100], out_shapes = []\<rparr>)], 0, 2) \<and>
   concat (packing_output_of box_lib (prefix_native 0) (initial_heap (prefix_native 0))
             [blank_sheet 100 100] two_squares 5 10 False 1 False None) = [] \<and>
   fst (pack box_lib (prefix_native 1) (initial_heap (prefix_native 1)) [blank_sheet 100 100]
          two_squares 5 10 True 1 False None) =
     Inr ([(0, \<lparr>out_viewBox = [0, 0, 100, 100], out_shapes = [placed_square]\<rparr>)], 1, 1) \<and>
   fst (pack box_lib (prefix_native 1) (initial_heap (prefix_native 1)) [blank_sheet 100 100]
          two_squares 5 10 False 1 False None) = Inl AssertionError"
proof -
  have all: "fst (pack box_lib (prefix_native 2) (initial_heap (prefix_native 2))
      [blank_sheet 100 100] two_squares 5 10 False 1 False None) =
     Inr ([(0, \<lparr>out_viewBox = [0, 0, 100, 100],
                out_shapes = [placed_square, placed_square]\<rparr>)], 2, 0)"
    by (simp add: pack_fst pack_body_two_squares_all)
  have none: "fst (pack box_lib (prefix_native 0) (initial_heap (prefix_native 0))
      [blank_sheet 100 100] two_squares 5 10 False 1 False None) =
     Inr ([(0, \<lparr>out_viewBox = [0, 0, 100, 100], out_shapes = []\<rparr>)], 0, 2)"
    by (simp add: pack_fst pack_body_two_squares_none)
  have one: "\<And>b. fst (pack box_lib (prefix_native 1) (initial_heap (prefix_native 1))
      [blank_sheet 100 100] two_squares 5 10 b 1 False None) =
     (if b then Inr ([(0, \<lparr>out_viewBox = [0, 0, 100, 100], out_shapes = [placed_square]\<rparr>)], 1, 1)
      else Inl AssertionError)"
    by (simp add: pack_fst pack_body_two_squares_one)
  have n: "length (filter (\<lambda>e. is_hidden e = Inr False \<and> is_retained e 10)
      (doc_elements two_squares)) = 2"
    by (simp add: two_squares_def rect_retained) (simp add: is_hidden_def rect_element_def)
  have po: "packing_output_of box_lib (prefix_native 2) (initial_heap (prefix_native 2))
       [blank_sheet 100 100] two_squares 5 10 False 1 False None =
     [[\<lparr>polygon_id = 0, transform = \<lparr>translate = (-20,-20), rotate_angle = 0\<rparr>\<rparr>,
       \<lparr>polygon_id = 1, transform = \<lparr>translate = (-20,-20), rotate_angle = 0\<rparr>\<rparr>]]"
    by (simp add: packing_output_two_squares upt_2)
  from pack_all_or_nothing[OF all] have cover:
    "polygon_id ` set (concat (packing_output_of box_lib (prefix_native 2)
       (initial_heap (prefix_native 2)) [blank_sheet 100 100] two_squares 5 10 False 1
       False None)) = int ` {0..<2}"
    unfolding n by (simp add: po)
  from pack_all_or_nothing[OF none] have empty:
    "concat (packing_output_of box_lib (prefix_native 0) (initial_heap (prefix_native 0))
             [blank_sheet 100 100] two_squares 5 10 False 1 False None) = []"
    by simp
  from all po cover none empty one[of True] one[of False] show ?thesis
    by simp
qed

text \<open>
  C10. The hidden test yields true exactly when the element's values have a key named
  \<open>hidden\<close> and the value under \<open>visibility\<close> is \<open>hidden\<close>, and then the loop
  skips the element. An element whose \<open>visibility\<close> is \<open>hidden\<close> but whose values
  have no key \<open>hidden\<close> is not skipped: when it is a non-empty closed path or shape, it
  is among the elements whose polygons \<open>pack\<close> hands to \<open>pack_decreasing\<close>.
\<close>

theorem hidden_test_literal:
  "(is_hidden e = Inr True \<longleftrightarrow>
      ''hidden'' \<in> dom (el_values e) \<and> el_values e ''visibility'' = Some ''hidden'') \<and>
   (is_hidden e = Inr True \<longrightarrow> gather_paths tolerance (e # es) = gather_paths tolerance es) \<and>
   (''hidden'' \<notin> dom (el_values e) \<and> el_values e ''visibility'' = Some ''hidden'' \<longrightarrow>
      is_hidden e = Inr False \<and>
      (\<forall>L N st sheet_svgs shapes offset partial_solution rotations elements polygons po.
         e \<in> set (doc_elements shapes) \<and> is_retained e tolerance \<and>
         fst (pack_run L N st sheet_svgs shapes offset tolerance partial_solution rotations) =
           Inr (elements, polygons, po) \<longrightarrow>
         e \<in> set elements \<and> length polygons = length elements))"
proof (intro conjI impI allI)
  show "is_hidden e = Inr True \<longleftrightarrow>
      ''hidden'' \<in> dom (el_values e) \<and> el_values e ''visibility'' = Some ''hidden''"
    by (auto simp: is_hidden_def split: option.splits)
next
  assume "is_hidden e = Inr True"
  then show "gather_paths tolerance (e # es) = gather_paths tolerance es" by simp
next
  assume "''hidden'' \<notin> dom (el_values e) \<and> el_values e ''visibility'' = Some ''hidden''"
  then show "is_hidden e = Inr False" by (simp add: is_hidden_def)
next
  fix L :: shapely_lib and N :: "'a native_lib" and st :: 'a and sheet_svgs shapes offset
    partial_solution rotations elements polygons po
  assume v: "''hidden'' \<notin> dom (el_values e) \<and> el_values e ''visibility'' = Some ''hidden''"
    and a: "e \<in> set (doc_elements shapes) \<and> is_retained e tolerance \<and>
         fst (pack_run L N st sheet_svgs shapes offset tolerance partial_solution rotations) =
           Inr (elements, polygons, po)"
  from v have h: "is_hidden e = Inr False" by (simp add: is_hidden_def)
  from a pack_run_elements[of L N st sheet_svgs shapes offset tolerance partial_solution
      rotations elements polygons po]
  have els: "elements = filter (\<lambda>e. is_hidden e = Inr False \<and> is_retained e tolerance)
      (doc_elements shapes)" and len: "length polygons = length elements"
    by simp_all
  from els a h show "e \<in> set elements" by simp
  from len show "length polygons = length elements" .
qed

theorem hidden_test_literal_witness:
  "''hidden'' \<notin> dom (el_values invisible_square) \<and>
   el_values invisible_square ''visibility'' = Some ''hidden'' \<and>
   is_retained invisible_square 10 \<and>
   is_hidden invisible_square = Inr False \<and>
   fst (pack_run box_lib row_native 0 [blank_sheet 100 100]
          \<lparr>viewBox = [0, 0, 100, 100], doc_elements = [invisible_square]\<rparr> 5 10 False 1) =
     Inr ([invisible_square],
          [\<lparr>boundary = [(-20,-20), (30,-20), (30,30), (-20,30)], holes = []\<rparr>],
          [[\<lparr>polygon_id = 0, transform = \<lparr>translate = (-20,-20), rotate_angle = 0\<rparr>\<rparr>]]) \<and>
   ''hidden'' \<in> dom (el_values hidden_square) \<and>
   el_values hidden_square ''visibility'' = Some ''hidden'' \<and>
   is_hidden hidden_square = Inr True \<and>
   gather_paths 10 [hidden_square, invisible_square] = gather_paths 10 [invisible_square]"
proof -
  have run: "fst (pack_run box_lib row_native 0 [blank_sheet 100 100]
          \<lparr>viewBox = [0, 0, 100, 100], doc_elements = [invisible_square]\<rparr> 5 10 False 1) =
     Inr ([invisible_square],
          [\<lparr>boundary = [(-20,-20), (30,-20), (30,30), (-20,30)], holes = []\<rparr>],
          [[\<lparr>polygon_id = 0, transform = \<lparr>translate = (-20,-20), rotate_angle = 0\<rparr>\<rparr>]])"
    using pack_run_square[of "[''visibility'' \<mapsto> ''hidden'']" 0 False] invisible_not_hidden
    by (simp add: invisible_square_def)
  have v: "''hidden'' \<notin> dom (el_values invisible_square) \<and>
      el_values invisible_square ''visibility'' = Some ''hidden''"
    by (simp add: invisible_square_def rect_element_def)
  have r: "is_retained invisible_square 10"
    by (simp add: invisible_square_def rect_retained)
  have hv: "''hidden'' \<in> dom (el_values hidden_square) \<and>
      el_values hidden_square ''visibility'' = Some ''hidden''"
    by (simp add: hidden_square_def rect_element_def)
  from hidden_test_literal[of hidden_square 10 "[invisible_square]"] hv
  have "is_hidden hidden_square = Inr True \<and>
      gather_paths 10 [hidden_square, invisible_square] = gather_paths 10 [invisible_square]"
    by blast
  moreover from hidden_test_literal[of invisible_square 10 "[]"] v
  have "is_hidden invisible_square = Inr False" by blast
  ultimately show ?thesis using v r run hv by blast
qed

text \<open>
  C8, as amended. Whenever the ingest of a document returns, the retained elements are
  exactly, and in document order, the elements for which the hidden test is false and
  which are paths or shapes with at least one segment whose first subpath starts and
  ends at a distance below the tolerance. Whenever \<open>pack\<close> returns, its two counts
  add up to the number of these elements, so that a dropped element is neither placed
  nor failed.
\<close>

theorem retained_iff_visible_closed:
  "(extract_shapely_polygons L doc tolerance = Inr (elements, sps) \<longrightarrow>
      elements =
        filter (\<lambda>e. is_hidden e = Inr False \<and> kind e \<noteq> OtherElement \<and>
                    path_len (el_path e) \<noteq> 0 \<and>
                    distance_to (sp_point (first_subpath (el_path e)) 0)
                                (sp_point (first_subpath (el_path e)) 1) < tolerance)
          (doc_elements doc)) \<and>
   (fst (pack L N h sheet_svgs shapes offset tolerance partial_solution rotations persist
           custom_state) = Inr (outputs, placed, failed) \<longrightarrow>
      placed + failed =
        int (length (filter (\<lambda>e. is_hidden e = Inr False \<and> kind e \<noteq> OtherElement \<and>
                    path_len (el_path e) \<noteq> 0 \<and>
                    distance_to (sp_point (first_subpath (el_path e)) 0)
                                (sp_point (first_subpath (el_path e)) 1) < tolerance)
          (doc_elements shapes))))"
proof -
  have eq: "(\<lambda>e. is_hidden e = Inr False \<and> is_retained e tolerance) =
      (\<lambda>e. is_hidden e = Inr False \<and> kind e \<noteq> OtherElement \<and>
                    path_len (el_path e) \<noteq> 0 \<and>
                    distance_to (sp_point (first_subpath (el_path e)) 0)
                                (sp_point (first_subpath (el_path e)) 1) < tolerance)"
    by (auto simp: fun_eq_iff is_retained_def is_closed_def get_boundary_def
          is_closed_subpath_def split: element_kind.splits)
  show ?thesis
  proof (intro conjI impI)
    assume "extract_shapely_polygons L doc tolerance = Inr (elements, sps)"
    from extract_shapely_polygons_Inr(1)[OF this] show "elements =
        filter (\<lambda>e. is_hidden e = Inr False \<and> kind e \<noteq> OtherElement \<and>
                    path_len (el_path e) \<noteq> 0 \<and>
                    distance_to (sp_point (first_subpath (el_path e)) 0)
                                (sp_point (first_subpath (el_path e)) 1) < tolerance)
          (doc_elements doc)"
      by (simp add: eq)
  next
    assume "fst (pack L N h sheet_svgs shapes offset tolerance partial_solution rotations persist
           custom_state) = Inr (outputs, placed, failed)"
    from pack_Inr[OF this] obtain elements polygons where
      els: "elements = filter (\<lambda>e. is_hidden e = Inr False \<and> is_retained e tolerance) (doc_elements shapes)"
      and len: "length polygons = length elements"
      and out: "pack_output sheet_svgs elements polygons
             (packing_output_of L N h sheet_svgs shapes offset tolerance partial_solution rotations
                persist custom_state) partial_solution = Inr (outputs, placed, failed)"
      by blast
    from pack_output_Inr(4)[OF out] els len show "placed + failed =
        int (length (filter (\<lambda>e. is_hidden e = Inr False \<and> kind e \<noteq> OtherElement \<and>
                    path_len (el_path e) \<noteq> 0 \<and>
                    distance_to (sp_point (first_subpath (el_path e)) 0)
                                (sp_point (first_subpath (el_path e)) 1) < tolerance)
          (doc_elements shapes)))"
      by (simp add: eq)
  qed
qed

theorem retained_iff_visible_closed_witness:
  "extract_shapely_polygons box_lib one_square 10 =
     Inr ([rect_element Map.empty 0 0 10 10],
          [(SPolygon [(-15,-15), (25,-15), (25,25), (-15,25), (-15,-15)], [])]) \<and>
   fst (pack box_lib row_native (initial_heap row_native) [blank_sheet 100 100] one_square 5 10
          True 1 True None) = Inr (one_square_outputs, 1, 0) \<and>
   [rect_element Map.empty 0 0 10 10] =
     filter (\<lambda>e. is_hidden e = Inr False \<and> kind e \<noteq> OtherElement \<and>
                 path_len (el_path e) \<noteq> 0 \<and>
                 distance_to (sp_point (first_subpath (el_path e)) 0)
                             (sp_point (first_subpath (el_path e)) 1) < 10)
       (doc_elements one_square) \<and>
   (1::int) + 0 =
     int (length (filter (\<lambda>e. is_hidden e = Inr False \<and> kind e \<noteq> OtherElement \<and>
                 path_len (el_path e) \<noteq> 0 \<and>
                 distance_to (sp_point (first_subpath (el_path e)) 0)
                             (sp_point (first_subpath (el_path e)) 1) < 10)
       (doc_elements one_square)))"
  using retained_iff_visible_closed[of box_lib one_square 10 "[rect_element Map.empty 0 0 10 10]"
      "[(SPolygon [(-15,-15), (25,-15), (25,25), (-15,25), (-15,-15)], [])]"
      row_native "initial_heap row_native" "[blank_sheet 100 100]" one_square 5 True 1 True None
      one_square_outputs 1 0]
    extract_shapely_one_square pack_one_square[of "initial_heap row_native" True True None]
  by simp

text \<open>
  The claim C8 as stated fails: a non-empty closed path that the hidden test skips is
  not retained.
\<close>

theorem hidden_closed_path_dropped:
  "kind hidden_square = PathElement \<and> path_len (el_path hidden_square) \<noteq> 0 \<and>
   is_closed (el_path hidden_square) 10 \<and>
   extract_shapely_polygons box_lib
     \<lparr>viewBox = [0, 0, 100, 100], doc_elements = [hidden_square]\<rparr> 10 = Inr ([], [])"
proof -
  have "is_closed (el_path hidden_square) 10"
    by (simp add: hidden_square_def rect_element_def is_closed_def get_boundary_def rect_closed)
  moreover have "extract_shapely_polygons box_lib
     \<lparr>viewBox = [0, 0, 100, 100], doc_elements = [hidden_square]\<rparr> 10 = Inr ([], [])"
    by (simp add: extract_shapely_polygons_def get_sheet_dimensions_def hidden_is_hidden)
  ultimately show ?thesis
    by (simp add: hidden_square_def rect_element_def)
qed

text \<open>
  C6, as amended. With \<open>persist\<close> true, \<open>pack\<close> uses the given \<open>custom_state\<close>
  when there is one and the shared \<open>persistent_state\<close> otherwise. With \<open>persist\<close>
  false it uses a newly created empty State, whether or not a \<open>custom_state\<close> is
  given, and leaves every existing State as it was. The selected State is the one handed
  to the native library and the only one the call updates.
\<close>

theorem pack_state_selection:
  "(persist \<and> custom_state = Some c \<longrightarrow> select_state N h persist custom_state = (c, h)) \<and>
   (persist \<and> custom_state = None \<longrightarrow>
      select_state N h persist custom_state = (persistent_state, h)) \<and>
   (\<not> persist \<longrightarrow>
      fst (select_state N h persist custom_state) = next_ref h \<and>
      objs (snd (select_state N h persist custom_state)) (next_ref h) = State_new N \<and>
      (\<forall>r. r < next_ref h \<longrightarrow>
         r \<noteq> fst (select_state N h persist custom_state) \<and>
         objs (snd (select_state N h persist custom_state)) r = objs h r)) \<and>
   (select_state N h persist custom_state = (state, h1) \<longrightarrow>
      fst (pack L N h sheet_svgs shapes offset tolerance partial_solution rotations persist
             custom_state) =
        fst (pack_body L N (objs h1 state) sheet_svgs shapes offset tolerance partial_solution
               rotations) \<and>
      objs (snd (pack L N h sheet_svgs shapes offset tolerance partial_solution rotations persist
                   custom_state)) state =
        snd (pack_body L N (objs h1 state) sheet_svgs shapes offset tolerance partial_solution
               rotations) \<and>
      (\<forall>r. r \<noteq> state \<longrightarrow>
         objs (snd (pack L N h sheet_svgs shapes offset tolerance partial_solution rotations
                      persist custom_state)) r = objs h1 r))"
  by (auto simp: select_state_def pack_def split: prod.splits)

theorem pack_state_selection_witness:
  "select_state row_native \<lparr>objs = (\<lambda>_. 0), next_ref = 2\<rparr> True (Some 1) =
     (1, \<lparr>objs = (\<lambda>_. 0), next_ref = 2\<rparr>) \<and>
   select_state row_native \<lparr>objs = (\<lambda>_. 0), next_ref = 2\<rparr> True None =
     (persistent_state, \<lparr>objs = (\<lambda>_. 0), next_ref = 2\<rparr>) \<and>
   fst (select_state row_native \<lparr>objs = (\<lambda>_. 0), next_ref = 2\<rparr> False (Some 1)) = 2 \<and>
   objs (snd (select_state row_native \<lparr>objs = (\<lambda>_. 0), next_ref = 2\<rparr> False (Some 1))) 1 = 0 \<and>
   objs (snd (pack box_lib row_native \<lparr>objs = (\<lambda>_. 0), next_ref = 2\<rparr> [blank_sheet 100 100]
                one_square 5 10 False 1 True (Some 1))) 1 = 1 \<and>
   objs (snd (pack box_lib row_native \<lparr>objs = (\<lambda>_. 0), next_ref = 2\<rparr> [blank_sheet 100 100]
                one_square 5 10 False 1 True (Some 1))) 0 = 0"
proof -
  let ?h = "\<lparr>objs = (\<lambda>_. 0::nat), next_ref = 2\<rparr>"
  note t1 = pack_state_selection[of True "Some 1" 1 row_native ?h 1 ?h box_lib
      "[blank_sheet 100 100]" one_square 5 10 False 1]
  note t2 = pack_state_selection[of True None 1 row_native ?h persistent_state ?h box_lib
      "[blank_sheet 100 100]" one_square 5 10 False 1]
  note t3 = pack_state_selection[of False "Some 1" 1 row_native ?h 2 ?h box_lib
      "[blank_sheet 100 100]" one_square 5 10 False 1]
  have sel: "select_state row_native ?h True (Some 1) = (1, ?h)"
    using t1 by simp
  have "objs (snd (pack box_lib row_native ?h [blank_sheet 100 100]
                one_square 5 10 False 1 True (Some 1))) 1 = 1"
    using t1 sel by (simp add: pack_body_one_square)
  moreover have "objs (snd (pack box_lib row_native ?h [blank_sheet 100 100]
                one_square 5 10 False 1 True (Some 1))) 0 = 0"
    using t1 sel by simp
  moreover have "select_state row_native ?h True None = (persistent_state, ?h)"
    using t2 by simp
  moreover have "fst (select_state row_native ?h False (Some 1)) = 2 \<and>
      objs (snd (select_state row_native ?h False (Some 1))) 1 = 0"
    using t3 by simp
  ultimately show ?thesis using sel by simp
qed

text \<open>
  The claim C6 as stated fails: with \<open>persist\<close> false, a given \<open>custom_state\<close> is
  not used. The call runs on a new State (reference 2) and leaves the custom one
  (reference 1) untouched.
\<close>

theorem custom_state_unused_without_persist:
  "fst (select_state row_native two_state_heap False (Some 1)) = 2 \<and>
   objs two_state_heap 1 = 0 \<and>
   objs (snd (pack box_lib row_native two_state_heap [blank_sheet 100 100]
                one_square 5 10 False 1 False (Some 1))) 1 = 0 \<and>
   objs (snd (pack box_lib row_native two_state_heap [blank_sheet 100 100]
                one_square 5 10 False 1 False (Some 1))) 2 = 1"
proof -
  have "State_new row_native = 0"
    by (simp add: row_native_def)
  then show ?thesis
    by (simp add: select_state_def pack_def pack_body_one_square two_state_heap_def)
qed

text \<open>
  C4. Whenever \<open>extract_polygons\<close> returns, the boundary of each polygon is the
  exterior ring of the conservative boundary (the discretized first subpath dilated by
  1.5 times the tolerance and simplified) dilated by \<open>offset\<close>, while its holes are the
  rings of the eroded hole subpaths with no dilation by \<open>offset\<close>: the holes are the
  same for every other offset.
\<close>

theorem offset_dilates_boundary_only:
  assumes "extract_polygons L doc tolerance offset = Inr (elements, polygons)"
  shows "list_all2 (\<lambda>e p. \<exists>d cs.
           discretize_path (first_subpath (el_path e)) tolerance = Inr d \<and>
           exterior_coords
             (dilate L (simplify L (dilate L d (1.5 * tolerance)) tolerance) offset) = Inr cs \<and>
           boundary p = ring_points cs) elements polygons \<and>
         list_all2 (\<lambda>e p. \<exists>hs.
           hole_polygons L tolerance (rest_subpaths (el_path e)) = Inr hs \<and>
           holes p = add_holes hs) elements polygons \<and>
         (\<forall>offset' elements' polygons'.
            extract_polygons L doc tolerance offset' = Inr (elements', polygons') \<longrightarrow>
            map holes polygons' = map holes polygons)"
proof (intro conjI allI impI)
  note p = extract_polygons_pipeline[OF assms]
  show "list_all2 (\<lambda>e p. \<exists>d cs.
           discretize_path (first_subpath (el_path e)) tolerance = Inr d \<and>
           exterior_coords
             (dilate L (simplify L (dilate L d (1.5 * tolerance)) tolerance) offset) = Inr cs \<and>
           boundary p = ring_points cs) elements polygons"
    by (rule list_all2_mono[OF p]) blast
  show h: "list_all2 (\<lambda>e p. \<exists>hs.
           hole_polygons L tolerance (rest_subpaths (el_path e)) = Inr hs \<and>
           holes p = add_holes hs) elements polygons"
    by (rule list_all2_mono[OF p]) blast
  fix offset' elements' polygons'
  assume a: "extract_polygons L doc tolerance offset' = Inr (elements', polygons')"
  have e: "elements' = elements"
    by (rule extract_polygons_elements_offset[OF assms a])
  have h': "list_all2 (\<lambda>e p. \<exists>hs.
           hole_polygons L tolerance (rest_subpaths (el_path e)) = Inr hs \<and>
           holes p = add_holes hs) elements polygons'"
    using extract_polygons_pipeline[OF a] e by (auto elim: list_all2_mono)
  show "map holes polygons' = map holes polygons"
  proof (rule nth_equalityI)
    from h h' show "length (map holes polygons') = length (map holes polygons)"
      by (simp add: list_all2_lengthD[symmetric])
  next
    fix i assume "i < length (map holes polygons')"
    with h h' have i: "i < length elements" "i < length polygons" "i < length polygons'"
      by (simp_all add: list_all2_lengthD[symmetric])
    from h i obtain hs where
      "hole_polygons L tolerance (rest_subpaths (el_path (elements ! i))) = Inr hs"
      "holes (polygons ! i) = add_holes hs"
      by (auto simp: list_all2_conv_all_nth)
    moreover from h' i obtain hs' where
      "hole_polygons L tolerance (rest_subpaths (el_path (elements ! i))) = Inr hs'"
      "holes (polygons' ! i) = add_holes hs'"
      by (auto simp: list_all2_conv_all_nth)
    ultimately show "map holes polygons' ! i = map holes polygons ! i"
      using i by simp
  qed
qed

theorem offset_dilates_boundary_only_witness:
  "extract_polygons box_lib ring_doc 10 5 =
     Inr ([ring_element],
          [\<lparr>boundary = [(-20,-20), (80,-20), (80,80), (-20,80)],
            holes = [[(25,25), (35,25), (35,35), (25,35)]]\<rparr>]) \<and>
   extract_polygons box_lib ring_doc 10 8 =
     Inr ([ring_element],
          [\<lparr>boundary = [(-23,-23), (83,-23), (83,83), (-23,83)],
            holes = [[(25,25), (35,25), (35,35), (25,35)]]\<rparr>]) \<and>
   map holes [\<lparr>boundary = [(-23,-23), (83,-23), (83,83), (-23,83)],
               holes = [[(25,25), (35,25), (35,35), (25,35)]]\<rparr>] =
   map holes [\<lparr>boundary = [(-20,-20), (80,-20), (80,80), (-20,80)],
               holes = [[(25,25), (35,25), (35,35), (25,35::real)]]\<rparr>]"
  using offset_dilates_boundary_only[OF extract_ring_5] extract_ring_5 extract_ring_8
  by blast

text \<open>
  C9. For every sheet document of the list passed to \<open>pack\<close>, what \<open>pack\<close> hands to
  \<open>sheet_add_holes\<close> is the list of the outer boundaries of the retained shapes of that
  document, each the discretized first subpath dilated by 1.5 times the tolerance,
  simplified, and dilated by \<open>offset\<close>: the sheets are those of the calls of
  \<open>sheet_add_holes\<close>, one for each document in order, and they are the sheets that
  \<open>pack_decreasing\<close> gets. The hole subpaths of the sheets' shapes have no influence:
  with any other hole subpaths the sheets built, and the whole result of \<open>pack\<close>, are
  the same.
\<close>

theorem sheet_holes_outer_boundaries:
  "(make_sheets L N sheet_svgs tolerance offset state = (Inr sheets, state') \<longrightarrow>
      (\<exists>calls.
         list_all2 (\<lambda>svg c. \<exists>elements hs.
             extract_polygons L svg tolerance offset = Inr (elements, hs) \<and>
             get_sheet_dimensions svg = Inr (fst c, fst (snd c)) \<and>
             snd (snd c) = map boundary hs \<and>
             list_all2 (\<lambda>e b. \<exists>d cs.
                 discretize_path (first_subpath (el_path e)) tolerance = Inr d \<and>
                 exterior_coords
                   (dilate L (simplify L (dilate L d (1.5 * tolerance)) tolerance) offset) =
                     Inr cs \<and>
                 b = ring_points cs) elements (snd (snd c))) sheet_svgs calls \<and>
         add_sheets N calls state = (sheets, state'))) \<and>
   (fst (pack L N h sheet_svgs shapes offset tolerance partial_solution rotations persist
           custom_state) = Inr result \<longrightarrow>
      (\<exists>elements polygons sheets1 state1.
         extract_polygons L shapes tolerance offset = Inr (elements, polygons) \<and>
         make_sheets L N sheet_svgs tolerance offset
             (objs (snd (select_state N h persist custom_state))
                   (fst (select_state N h persist custom_state))) = (Inr sheets1, state1) \<and>
         packing_output_of L N h sheet_svgs shapes offset tolerance partial_solution rotations
             persist custom_state =
           fst (pack_decreasing N sheets1 polygons state1 partial_solution rotations))) \<and>
   (extract_polygons L svg_string tolerance offset = Inr (elements, hs) \<and>
    get_sheet_dimensions svg_string = Inr (ht, wd) \<longrightarrow>
      make_sheets L N [svg_string] tolerance offset state =
        (case sheet_add_holes N \<lparr>height = ht, width = wd, sheet_holes = []\<rparr>
                (map boundary hs) state of
           (sheet, state') \<Rightarrow> (Inr [sheet], state')) \<and>
      list_all2 (\<lambda>e b. \<exists>d cs.
           discretize_path (first_subpath (el_path e)) tolerance = Inr d \<and>
           exterior_coords
             (dilate L (simplify L (dilate L d (1.5 * tolerance)) tolerance) offset) = Inr cs \<and>
           b = ring_points cs) elements (map boundary hs)) \<and>
   make_sheets L N (map (replace_holes f) sheet_svgs) tolerance offset state =
     make_sheets L N sheet_svgs tolerance offset state \<and>
   pack L N h (map (replace_holes f) sheet_svgs) shapes offset tolerance partial_solution
       rotations persist custom_state =
     pack L N h sheet_svgs shapes offset tolerance partial_solution rotations persist custom_state"
proof (intro conjI impI)
  assume "make_sheets L N sheet_svgs tolerance offset state = (Inr sheets, state')"
  then show "\<exists>calls.
         list_all2 (\<lambda>svg c. \<exists>elements hs.
             extract_polygons L svg tolerance offset = Inr (elements, hs) \<and>
             get_sheet_dimensions svg = Inr (fst c, fst (snd c)) \<and>
             snd (snd c) = map boundary hs \<and>
             list_all2 (\<lambda>e b. \<exists>d cs.
                 discretize_path (first_subpath (el_path e)) tolerance = Inr d \<and>
                 exterior_coords
                   (dilate L (simplify L (dilate L d (1.5 * tolerance)) tolerance) offset) =
                     Inr cs \<and>
                 b = ring_points cs) elements (snd (snd c))) sheet_svgs calls \<and>
         add_sheets N calls state = (sheets, state')"
    by (rule make_sheets_calls)
next
  assume "fst (pack L N h sheet_svgs shapes offset tolerance partial_solution rotations persist
           custom_state) = Inr result"
  then show "\<exists>elements polygons sheets1 state1.
         extract_polygons L shapes tolerance offset = Inr (elements, polygons) \<and>
         make_sheets L N sheet_svgs tolerance offset
             (objs (snd (select_state N h persist custom_state))
                   (fst (select_state N h persist custom_state))) = (Inr sheets1, state1) \<and>
         packing_output_of L N h sheet_svgs shapes offset tolerance partial_solution rotations
             persist custom_state =
           fst (pack_decreasing N sheets1 polygons state1 partial_solution rotations)"
    by (rule pack_sheets)
next
  assume a: "extract_polygons L svg_string tolerance offset = Inr (elements, hs) \<and>
    get_sheet_dimensions svg_string = Inr (ht, wd)"
  then show "make_sheets L N [svg_string] tolerance offset state =
        (case sheet_add_holes N \<lparr>height = ht, width = wd, sheet_holes = []\<rparr>
                (map boundary hs) state of
           (sheet, state') \<Rightarrow> (Inr [sheet], state'))"
    by (simp split: prod.splits)
  from a show "list_all2 (\<lambda>e b. \<exists>d cs.
           discretize_path (first_subpath (el_path e)) tolerance = Inr d \<and>
           exterior_coords
             (dilate L (simplify L (dilate L d (1.5 * tolerance)) tolerance) offset) = Inr cs \<and>
           b = ring_points cs) elements (map boundary hs)"
    using extract_polygons_outer by blast
next
  show "make_sheets L N (map (replace_holes f) sheet_svgs) tolerance offset state =
     make_sheets L N sheet_svgs tolerance offset state"
    by (rule make_sheets_replace)
next
  show "pack L N h (map (replace_holes f) sheet_svgs) shapes offset tolerance partial_solution
       rotations persist custom_state =
     pack L N h sheet_svgs shapes offset tolerance partial_solution rotations persist custom_state"
    by (rule pack_replace_holes)
qed

theorem sheet_holes_outer_boundaries_witness:
  "extract_polygons box_lib ring_doc 10 5 =
     Inr ([ring_element],
          [\<lparr>boundary = [(-20,-20), (80,-20), (80,80), (-20,80)],
            holes = [[(25,25), (35,25), (35,35), (25,35)]]\<rparr>]) \<and>
   get_sheet_dimensions ring_doc = Inr (100, 100) \<and>
   extract_polygons box_lib sheet_with_square 10 5 =
     Inr ([rect_element Map.empty 0 0 10 10], [dilated_square]) \<and>
   get_sheet_dimensions sheet_with_square = Inr (200, 200) \<and>
   make_sheets box_lib row_native [ring_doc, sheet_with_square] 10 5 0 =
     (Inr [\<lparr>height = 100, width = 100,
            sheet_holes = [\<lparr>boundary = [(-20,-20), (80,-20), (80,80), (-20,80)],
                            holes = []\<rparr>]\<rparr>,
           \<lparr>height = 200, width = 200,
            sheet_holes = [\<lparr>boundary = [(-20,-20), (30,-20), (30,30), (-20,30)],
                            holes = []\<rparr>]\<rparr>], 2) \<and>
   add_sheets row_native
       [(100, 100, [[(-20,-20), (80,-20), (80,80), (-20,80)]]),
        (200, 200, [[(-20,-20), (30,-20), (30,30), (-20,30)]])] 0 =
     ([\<lparr>height = 100, width = 100,
        sheet_holes = [\<lparr>boundary = [(-20,-20), (80,-20), (80,80), (-20,80)],
                        holes = []\<rparr>]\<rparr>,
       \<lparr>height = 200, width = 200,
        sheet_holes = [\<lparr>boundary = [(-20,-20), (30,-20), (30,30), (-20,30)],
                        holes = []\<rparr>]\<rparr>], 2) \<and>
   make_sheets box_lib row_native [ring_doc] 10 5 0 =
     (Inr [\<lparr>height = 100, width = 100,
            sheet_holes = [\<lparr>boundary = [(-20,-20), (80,-20), (80,80), (-20,80)],
                            holes = []\<rparr>]\<rparr>], 1) \<and>
   make_sheets box_lib row_native
       (map (replace_holes (\<lambda>e. [])) [ring_doc, sheet_with_square]) 10 5 0 =
     make_sheets box_lib row_native [ring_doc, sheet_with_square] 10 5 0"
proof -
  have d1: "get_sheet_dimensions ring_doc = Inr (100, 100)"
    by (simp add: get_sheet_dimensions_def ring_doc_def)
  have d2: "get_sheet_dimensions sheet_with_square = Inr (200, 200)"
    by (simp add: get_sheet_dimensions_def sheet_with_square_def)
  note t = sheet_holes_outer_boundaries[where L = box_lib and N = row_native
      and sheet_svgs = "[ring_doc, sheet_with_square]" and tolerance = 10 and offset = 5
      and state = 0 and state' = 2
      and sheets = "[\<lparr>height = 100, width = 100,
            sheet_holes = [\<lparr>boundary = [(-20,-20), (80,-20), (80,80), (-20,80)],
                            holes = []\<rparr>]\<rparr>,
           \<lparr>height = 200, width = 200,
            sheet_holes = [\<lparr>boundary = [(-20,-20), (30,-20), (30,30), (-20,30)],
                            holes = []\<rparr>]\<rparr>]"
      and svg_string = ring_doc and elements = "[ring_element]"
      and hs = "[\<lparr>boundary = [(-20,-20), (80,-20), (80,80), (-20,80)],
                 holes = [[(25,25), (35,25), (35,35), (25,35)]]\<rparr>]"
      and ht = 100 and wd = 100 and f = "\<lambda>e. []"
      and h = "initial_heap row_native" and shapes = one_square and partial_solution = False
      and rotations = 1 and persist = True and custom_state = None
      and result = "(one_square_outputs, 1, 0)"]
  note t1 = t[THEN conjunct1, THEN mp, OF make_sheets_ring_square]
  note t3 = t[THEN conjunct2, THEN conjunct2, THEN conjunct1, THEN mp,
      OF conjI[OF extract_ring_5 d1], THEN conjunct1]
  note t4 = t[THEN conjunct2, THEN conjunct2, THEN conjunct2, THEN conjunct1]
  from t1 obtain calls where
    c0: "list_all2 (\<lambda>svg c. \<exists>elements hs.
             extract_polygons box_lib svg 10 5 = Inr (elements, hs) \<and>
             get_sheet_dimensions svg = Inr (fst c, fst (snd c)) \<and>
             snd (snd c) = map boundary hs \<and>
             list_all2 (\<lambda>e b. \<exists>d cs.
                 discretize_path (first_subpath (el_path e)) 10 = Inr d \<and>
                 exterior_coords
                   (dilate box_lib (simplify box_lib (dilate box_lib d (1.5 * 10)) 10) 5) =
                     Inr cs \<and>
                 b = ring_points cs) elements (snd (snd c)))
           [ring_doc, sheet_with_square] calls" and
    a: "add_sheets row_native calls 0 =
     ([\<lparr>height = 100, width = 100,
        sheet_holes = [\<lparr>boundary = [(-20,-20), (80,-20), (80,80), (-20,80)],
                        holes = []\<rparr>]\<rparr>,
       \<lparr>height = 200, width = 200,
        sheet_holes = [\<lparr>boundary = [(-20,-20), (30,-20), (30,30), (-20,30)],
                        holes = []\<rparr>]\<rparr>], 2)"
    by (elim exE conjE)
  have c: "list_all2 (\<lambda>svg c. \<exists>hs.
             extract_polygons box_lib svg 10 5 = Inr (fst (projr (extract_polygons box_lib svg 10 5)), hs) \<and>
             get_sheet_dimensions svg = Inr (fst c, fst (snd c)) \<and>
             snd (snd c) = map boundary hs) [ring_doc, sheet_with_square] calls"
    using c0 by (rule list_all2_mono) auto
  from c have "\<exists>c1 c2. calls = [c1, c2] \<and>
      (\<exists>hs. extract_polygons box_lib ring_doc 10 5 =
               Inr (fst (projr (extract_polygons box_lib ring_doc 10 5)), hs) \<and>
             get_sheet_dimensions ring_doc = Inr (fst c1, fst (snd c1)) \<and>
             snd (snd c1) = map boundary hs) \<and>
      (\<exists>hs. extract_polygons box_lib sheet_with_square 10 5 =
               Inr (fst (projr (extract_polygons box_lib sheet_with_square 10 5)), hs) \<and>
             get_sheet_dimensions sheet_with_square = Inr (fst c2, fst (snd c2)) \<and>
             snd (snd c2) = map boundary hs)"
    by (auto simp: list_all2_Cons1)
  then obtain c1 c2 where
    cs: "calls = [c1, c2]" and
    c1: "\<exists>hs. extract_polygons box_lib ring_doc 10 5 =
               Inr (fst (projr (extract_polygons box_lib ring_doc 10 5)), hs) \<and>
             get_sheet_dimensions ring_doc = Inr (fst c1, fst (snd c1)) \<and>
             snd (snd c1) = map boundary hs" and
    c2: "\<exists>hs. extract_polygons box_lib sheet_with_square 10 5 =
               Inr (fst (projr (extract_polygons box_lib sheet_with_square 10 5)), hs) \<and>
             get_sheet_dimensions sheet_with_square = Inr (fst c2, fst (snd c2)) \<and>
             snd (snd c2) = map boundary hs"
    by blast
  from c1 have e1: "c1 = (100, 100, [[(-20,-20), (80,-20), (80,80), (-20,80)]])"
    unfolding extract_ring_5 d1 by (cases c1) auto
  from c2 have e2: "c2 = (200, 200, [[(-20,-20), (30,-20), (30,30), (-20,30)]])"
    unfolding extract_sheet_with_square d2 by (cases c2) (auto simp: dilated_square_def)
  have calls: "add_sheets row_native
       [(100, 100, [[(-20,-20), (80,-20), (80,80), (-20,80)]]),
        (200, 200, [[(-20,-20), (30,-20), (30,30), (-20,30)]])] 0 =
     ([\<lparr>height = 100, width = 100,
        sheet_holes = [\<lparr>boundary = [(-20,-20), (80,-20), (80,80), (-20,80)],
                        holes = []\<rparr>]\<rparr>,
       \<lparr>height = 200, width = 200,
        sheet_holes = [\<lparr>boundary = [(-20,-20), (30,-20), (30,30), (-20,30)],
                        holes = []\<rparr>]\<rparr>], 2)"
    using a unfolding cs e1 e2 .
  have sa: "sheet_add_holes row_native = (\<lambda>sheet hs st.
      (sheet\<lparr>sheet_holes := map (\<lambda>b. \<lparr>boundary = b, holes = []\<rparr>) hs\<rparr>, st + length hs))"
    by (simp add: row_native_def)
  have one: "make_sheets box_lib row_native [ring_doc] 10 5 0 =
     (Inr [\<lparr>height = 100, width = 100,
            sheet_holes = [\<lparr>boundary = [(-20,-20), (80,-20), (80,80), (-20,80)],
                            holes = []\<rparr>]\<rparr>], 1)"
    unfolding t3 sa by simp
  show ?thesis
    using extract_ring_5 d1 extract_sheet_with_square d2 make_sheets_ring_square calls one t4
    by (intro conjI) assumption+
qed



end
